theory Spec2Isabelle
  imports Complex_Main "HOL-Library.Word"
begin

unbundle bit_operations_syntax

section \<open>Windowed raster I/O of rasterio (\<open>rasterio/_io.pyx\<close>)\<close>

text \<open>
  A shallow embedding of \<open>DatasetReaderBase.read\<close>, \<open>read_masks\<close>, \<open>_read\<close>,
  \<open>dataset_mask\<close>, of \<open>DatasetWriterBase.write\<close> and of the \<open>io_multi_*\<close>
  transfer functions they dispatch to.

  Conventions of the model.
  \<^item> A Python exception is the left summand of the result (\<open>Inl\<close>).
  \<^item> Every call of \<open>GDALDatasetRasterIO\<close> or \<open>GDALRasterIO\<close> is recorded, in call
    order, in a list of \<open>native_call\<close> records returned beside the result. What the
    native library answers (its return code and the memory it fills) is a field of the
    dataset, a function of the call.
  \<^item> Python integers are \<open>int\<close>. Where Cython converts one to a C \<open>int\<close> (the
    offsets and sizes of the IO window) the conversion raises when the value does not
    fit 32 bits, and arithmetic on the converted values wraps around at 32 bits.
  \<^item> A finite double is a rational number: nodata values, which GDAL keeps as doubles,
    and the scaling factors of the boundless branch are of type \<open>rat\<close>;
    not-a-number and infinities are outside the model. The floating-point division and
    multiplication of the boundless branch are parameters of the model (fields of
    \<open>env\<close>), so that what is proved for every environment holds of double
    precision arithmetic.
  \<^item> Arrays have two or three dimensions (the type \<open>shape\<close>); a cell is addressed by
    band, row and column, the band being ignored in a two-dimensional array.
\<close>

subsection \<open>Errors\<close>

datatype py_error =
    ValueError string
  | IndexError string
  | IOError string
  | ZeroDivisionError string
  | OverflowError string

subsection \<open>Pixel encodings\<close>

text \<open>
  The encodings are the eleven branches \<open>gdt == 1\<close> ... \<open>gdt == 11\<close> on which
  \<open>_read\<close> and \<open>write\<close> dispatch, named after the transfer function of each branch.
\<close>

datatype dtype =
    UInt8 | UInt16 | Int16 | UInt32 | Int32 | Float32 | Float64
  | CInt16 | CInt32 | CFloat32 | CFloat64

text \<open>
  Modelled from the spec: the table \<open>rasterio.dtypes.dtype_rev\<close> is not among the
  sources. It maps the encoding of a band to the GDAL type code; the codes are those the
  dispatch chains of \<open>_read\<close> and \<open>write\<close> compare with, and the last numeric
  argument that each \<open>io_multi_*\<close> function hands to \<open>GDALDatasetRasterIO\<close>.
\<close>

fun dtype_rev :: "dtype \<Rightarrow> nat" where
  "dtype_rev UInt8 = 1"
| "dtype_rev UInt16 = 2"
| "dtype_rev Int16 = 3"
| "dtype_rev UInt32 = 4"
| "dtype_rev Int32 = 5"
| "dtype_rev Float32 = 6"
| "dtype_rev Float64 = 7"
| "dtype_rev CInt16 = 8"
| "dtype_rev CInt32 = 9"
| "dtype_rev CFloat32 = 10"
| "dtype_rev CFloat64 = 11"

datatype kind = KindI | KindU | KindF | KindC

text \<open>\<open>np.dtype(dtype).kind\<close>.\<close>

fun dtype_kind :: "dtype \<Rightarrow> kind" where
  "dtype_kind UInt8 = KindU"
| "dtype_kind UInt16 = KindU"
| "dtype_kind Int16 = KindI"
| "dtype_kind UInt32 = KindU"
| "dtype_kind Int32 = KindI"
| "dtype_kind Float32 = KindF"
| "dtype_kind Float64 = KindF"
| "dtype_kind CInt16 = KindC"
| "dtype_kind CInt32 = KindC"
| "dtype_kind CFloat32 = KindC"
| "dtype_kind CFloat64 = KindC"

text \<open>
  The largest finite single and double precision numbers, \<open>np.finfo(dtype).max\<close>.
  The two complex integer encodings are held by numpy as double precision complex
  numbers, the complex single precision encoding as single precision pairs.
\<close>

definition float32_max :: rat where
  "float32_max = (2 ^ 24 - 1) * 2 ^ 104"

definition float64_max :: rat where
  "float64_max = (2 ^ 53 - 1) * 2 ^ 971"

text \<open>\<open>(info.min, info.max)\<close> of \<open>np.iinfo(dtype)\<close> or \<open>np.finfo(dtype)\<close>.\<close>

fun dtype_range :: "dtype \<Rightarrow> rat \<times> rat" where
  "dtype_range UInt8 = (0, 255)"
| "dtype_range UInt16 = (0, 65535)"
| "dtype_range Int16 = (- 32768, 32767)"
| "dtype_range UInt32 = (0, 4294967295)"
| "dtype_range Int32 = (- 2147483648, 2147483647)"
| "dtype_range Float32 = (- float32_max, float32_max)"
| "dtype_range Float64 = (- float64_max, float64_max)"
| "dtype_range CInt16 = (- float64_max, float64_max)"
| "dtype_range CInt32 = (- float64_max, float64_max)"
| "dtype_range CFloat32 = (- float32_max, float32_max)"
| "dtype_range CFloat64 = (- float64_max, float64_max)"

text \<open>
  The nodata clamp in the index loop of \<open>read\<close>:
  \<^verbatim>\<open>
  if ndv is not None:
      ... dt_min, dt_max = info.min, info.max
      if ndv < dt_min:
          ndv = dt_min
      elif ndv > dt_max:
          ndv = dt_max
  \<close>
\<close>

definition clamp_nodata :: "dtype \<Rightarrow> rat option \<Rightarrow> rat option" where
  "clamp_nodata dt ndv =
     (case ndv of
        None \<Rightarrow> None
      | Some v \<Rightarrow>
          (let (dt_min, dt_max) = dtype_range dt
           in if v < dt_min then Some dt_min
              else if v > dt_max then Some dt_max
              else Some v))"

subsection \<open>Arrays\<close>

datatype shape = Shape2 nat nat | Shape3 nat nat nat

text \<open>\<open>len(a.shape)\<close>, \<open>a.shape[0]\<close>, \<open>a.shape[-2:][0]\<close> and \<open>a.shape[-2:][1]\<close>.\<close>

fun ndim :: "shape \<Rightarrow> nat" where
  "ndim (Shape2 r c) = 2"
| "ndim (Shape3 n r c) = 3"

fun shape0 :: "shape \<Rightarrow> nat" where
  "shape0 (Shape2 r c) = r"
| "shape0 (Shape3 n r c) = n"

fun shape_rows :: "shape \<Rightarrow> nat" where
  "shape_rows (Shape2 r c) = r"
| "shape_rows (Shape3 n r c) = r"

fun shape_cols :: "shape \<Rightarrow> nat" where
  "shape_cols (Shape2 r c) = c"
| "shape_cols (Shape3 n r c) = c"

text \<open>\<open>(1,) + a.shape\<close> and \<open>a.shape[1:]\<close> of a three-dimensional array.\<close>

fun shape_prepend1 :: "shape \<Rightarrow> shape option" where
  "shape_prepend1 (Shape2 r c) = Some (Shape3 1 r c)"
| "shape_prepend1 (Shape3 n r c) = None"

fun shape_tail :: "shape \<Rightarrow> shape" where
  "shape_tail (Shape3 n r c) = Shape2 r c"
| "shape_tail (Shape2 r c) = Shape2 r c"

text \<open>
  A pixel is a real number (the seven real encodings; integers are whole rationals) or a
  complex number given by its real and imaginary part.
\<close>

datatype pixel = PReal rat | PComplex rat rat

record 'a ndarray =
  shape :: shape
  adtype :: dtype
  c_contiguous :: bool
  cells :: "nat \<Rightarrow> nat \<Rightarrow> nat \<Rightarrow> 'a"

text \<open>The boolean mask of a numpy masked array.\<close>

record boolmask =
  bshape :: shape
  bcells :: "nat \<Rightarrow> nat \<Rightarrow> nat \<Rightarrow> bool"

text \<open>
  Memory as the native library sees it: for each plane of the buffer a linear sequence of
  numbers. A real buffer with \<open>K\<close> columns keeps cell \<open>(j, k)\<close> of a plane at offset
  \<open>j * K + k\<close>; the complex transfer functions read real and imaginary part from the
  offsets \<open>2 * (j * K + k)\<close> and \<open>2 * (j * K + k) + 1\<close> of their temporary buffer.
\<close>

type_synonym memory = "nat \<Rightarrow> nat \<Rightarrow> rat"

fun pixel_re :: "pixel \<Rightarrow> rat" where
  "pixel_re (PReal x) = x"
| "pixel_re (PComplex x y) = x"

definition flatten :: "pixel ndarray \<Rightarrow> memory" where
  "flatten a = (\<lambda>p m. pixel_re (cells a p (m div shape_cols (shape a)) (m mod shape_cols (shape a))))"

definition unflatten :: "nat \<Rightarrow> memory \<Rightarrow> nat \<Rightarrow> nat \<Rightarrow> nat \<Rightarrow> pixel" where
  "unflatten K mem = (\<lambda>i j k. PReal (mem i (j * K + k)))"

definition deinterleave :: "nat \<Rightarrow> memory \<Rightarrow> nat \<Rightarrow> nat \<Rightarrow> nat \<Rightarrow> pixel" where
  "deinterleave K buf = (\<lambda>i j k. PComplex (buf i (2 * (j * K + k))) (buf i (2 * (j * K + k) + 1)))"

subsection \<open>The dataset and the native library\<close>

type_synonym window = "(int \<times> int) \<times> (int \<times> int)"

datatype target = DatasetIO | MaskBandIO

text \<open>
  One call of \<open>GDALDatasetRasterIO\<close> (target \<open>DatasetIO\<close>) or of \<open>GDALRasterIO\<close> on
  a mask band (target \<open>MaskBandIO\<close>): the mode (0 reads, 1 writes), the pixel rectangle,
  the size of the buffer, the GDAL type code, the band map, and in write mode the memory
  handed over.
\<close>

record native_call =
  nc_target :: target
  nc_mode :: nat
  nc_xoff :: int
  nc_yoff :: int
  nc_xsize :: int
  nc_ysize :: int
  nc_buf_xsize :: nat
  nc_buf_ysize :: nat
  nc_gdt :: nat
  nc_bandmap :: "int list"
  nc_mem :: "memory option"

type_synonym 'a traced = "(py_error + 'a) \<times> native_call list"

datatype color_interp = Red | Alpha | OtherInterp

text \<open>
  Modelled from the spec: the class \<open>DatasetBase\<close> is not among the sources. The record
  holds what the methods read from \<open>self\<close>: whether the native handle \<open>_hds\<close> is set,
  \<open>height\<close>, \<open>width\<close>, \<open>count\<close>, \<open>indexes\<close> (the valid band indexes, one-based),
  \<open>dtypes\<close>, \<open>_nodatavals\<close> and \<open>colorinterp\<close>; and what the native library answers: the flags
  \<open>GDALGetMaskFlags\<close> gives for a band, whether \<open>GDALGetRasterBand\<close> and
  \<open>GDALGetMaskBand\<close> give a null handle for a band, and for each transfer call the return code and the memory found in the buffer afterwards.
\<close>

record dataset =
  hds_open :: bool
  height :: int
  width :: int
  count :: nat
  indexes :: "int list"
  dtypes :: "dtype list"
  nodatavals :: "rat option list"
  get_mask_flags :: "int \<Rightarrow> nat"
  colorinterp :: "int \<Rightarrow> color_interp"
  raster_band_null :: "int \<Rightarrow> bool"
  mask_band_null :: "int \<Rightarrow> bool"
  raster_io :: "native_call \<Rightarrow> int \<times> memory"
  mask_io :: "native_call \<Rightarrow> int \<times> (nat \<Rightarrow> 8 word)"

text \<open>
  What the methods take from outside the sources and the dataset: the helper
  \<open>rasterio.windows.evaluate\<close>, which is not among the sources and is a parameter of the
  model; the content that \<open>np.empty\<close> finds in fresh memory; and double precision
  arithmetic: \<open>float_quot a b\<close> is the double that \<open>float(a) / b\<close> gives for a
  divisor other than zero, and \<open>float_prod n s\<close> the double that \<open>n * s\<close> gives for
  an integer \<open>n\<close> and a double \<open>s\<close>.
\<close>

record env =
  evaluate :: "window \<Rightarrow> int \<Rightarrow> int \<Rightarrow> py_error + window"
  uninitialised :: memory
  float_quot :: "nat \<Rightarrow> int \<Rightarrow> rat"
  float_prod :: "int \<Rightarrow> rat \<Rightarrow> rat"

text \<open>
  Modelled from the spec: the property \<open>mask_flags\<close> of \<open>DatasetBase\<close> and the
  enumeration \<open>MaskFlags\<close> are not among the sources. The property is the mask-flag
  bitset of each band; \<open>per_dataset\<close> is GDAL's \<open>GMF_PER_DATASET\<close>, the value
  \<open>0x02\<close> that \<open>write_mask\<close> passes to \<open>GDALCreateMaskBand\<close>.
\<close>

definition mask_flags :: "dataset \<Rightarrow> nat list" where
  "mask_flags ds = map (get_mask_flags ds) (indexes ds)"

definition MaskFlags_per_dataset :: nat where
  "MaskFlags_per_dataset = 2"

subsection \<open>The transfer functions\<close>

text \<open>
  The seven functions \<open>io_multi_ubyte\<close> ... \<open>io_multi_float64\<close> differ in the GDAL type
  code only. Each copies \<open>indexes\<close> into the band map in the given order
  (\<open>bandmap[i] = indexes[i]\<close> for \<open>i\<close> in \<open>range(count)\<close>) and makes one call of
  \<open>GDALDatasetRasterIO\<close> on the three-dimensional buffer. A buffer of another rank is
  refused by the typed memoryview argument before the call. In read mode the buffer
  holds afterwards what the library put there; in write mode the library only reads it.
\<close>

definition io_multi_real ::
  "nat \<Rightarrow> dataset \<Rightarrow> nat \<Rightarrow> int \<Rightarrow> int \<Rightarrow> int \<Rightarrow> int \<Rightarrow> pixel ndarray \<Rightarrow> int list \<Rightarrow> nat
     \<Rightarrow> (int \<times> pixel ndarray) traced" where
  "io_multi_real gdt hds mode xoff yoff width' height' buffer indexes' count' =
     (case shape buffer of
        Shape2 r c \<Rightarrow> (Inl (ValueError ''Buffer has wrong number of dimensions (expected 3, got 2)''), [])
      | Shape3 n r c \<Rightarrow>
          (let call = \<lparr>nc_target = DatasetIO, nc_mode = mode, nc_xoff = xoff, nc_yoff = yoff,
                       nc_xsize = width', nc_ysize = height', nc_buf_xsize = c, nc_buf_ysize = r,
                       nc_gdt = gdt, nc_bandmap = take count' indexes',
                       nc_mem = (if mode = 0 then None else Some (flatten buffer))\<rparr>;
               (retval, mem) = raster_io hds call
           in (Inr (retval, if mode = 0 then buffer\<lparr>cells := unflatten c mem\<rparr> else buffer), [call])))"

definition io_multi_ubyte where "io_multi_ubyte = io_multi_real 1"
definition io_multi_uint16 where "io_multi_uint16 = io_multi_real 2"
definition io_multi_int16 where "io_multi_int16 = io_multi_real 3"
definition io_multi_uint32 where "io_multi_uint32 = io_multi_real 4"
definition io_multi_int32 where "io_multi_int32 = io_multi_real 5"
definition io_multi_float32 where "io_multi_float32 = io_multi_real 6"
definition io_multi_float64 where "io_multi_float64 = io_multi_real 7"

text \<open>
  The four complex functions allocate a temporary real buffer \<open>buf\<close> of twice the width,
  hand that buffer (not \<open>out\<close>) to \<open>GDALDatasetRasterIO\<close> in whatever mode they are
  called with, return early on a positive return code, and otherwise copy \<open>buf\<close> pair by
  pair into \<open>out\<close>. The temporary of \<open>io_multi_cint16\<close> comes from \<open>np.zeros\<close>, the
  other three from \<open>np.empty\<close>.
\<close>

definition io_multi_complex ::
  "nat \<Rightarrow> memory \<Rightarrow> dataset \<Rightarrow> nat \<Rightarrow> int \<Rightarrow> int \<Rightarrow> int \<Rightarrow> int \<Rightarrow> pixel ndarray \<Rightarrow> int list \<Rightarrow> nat
     \<Rightarrow> (int \<times> pixel ndarray) traced" where
  "io_multi_complex gdt buf hds mode xoff yoff width' height' out indexes' count' =
     (case shape out of
        Shape2 r c \<Rightarrow> (Inl (ValueError ''Buffer has wrong number of dimensions (expected 3, got 2)''), [])
      | Shape3 I J K \<Rightarrow>
          (let call = \<lparr>nc_target = DatasetIO, nc_mode = mode, nc_xoff = xoff, nc_yoff = yoff,
                       nc_xsize = width', nc_ysize = height', nc_buf_xsize = K, nc_buf_ysize = J,
                       nc_gdt = gdt, nc_bandmap = take count' indexes',
                       nc_mem = (if mode = 0 then None else Some buf)\<rparr>;
               (retval, mem) = raster_io hds call;
               buf_view = (if mode = 0 then mem else buf)
           in if retval > 0 then (Inr (retval, out), [call])
              else (Inr (retval, out\<lparr>cells := deinterleave K buf_view\<rparr>), [call])))"

definition io_multi_cint16 where
  "io_multi_cint16 (e :: env) = io_multi_complex 8 (\<lambda>p m. 0)"
definition io_multi_cint32 where
  "io_multi_cint32 (e :: env) = io_multi_complex 9 (uninitialised e)"
definition io_multi_cfloat32 where
  "io_multi_cfloat32 (e :: env) = io_multi_complex 10 (uninitialised e)"
definition io_multi_cfloat64 where
  "io_multi_cfloat64 (e :: env) = io_multi_complex 11 (uninitialised e)"

text \<open>
  \<open>io_multi_mask\<close>: one \<open>GDALRasterIO\<close> call per requested band, on the band's mask
  band, into plane \<open>i\<close> of the buffer; the loop breaks at the first nonzero return
  code. At a null band or mask band the source has a \<open>raise\<close> statement, but the
  function is declared \<open>cdef int\<close> without an \<open>except\<close> clause: the Cython this
  source is written for (before version 3) prints an exception raised in such a function
  and drops it, and the function returns 0. So a null handle ends the loop with the
  return code 0 and leaves the remaining planes of the buffer as they were.
\<close>

fun io_multi_mask_loop ::
  "dataset \<Rightarrow> nat \<Rightarrow> int \<Rightarrow> int \<Rightarrow> int \<Rightarrow> int \<Rightarrow> (8 word) ndarray \<Rightarrow> nat \<Rightarrow> int list
     \<Rightarrow> (int \<times> (8 word) ndarray) traced" where
  "io_multi_mask_loop hds mode xoff yoff width' height' buffer i [] = (Inr (0, buffer), [])"
| "io_multi_mask_loop hds mode xoff yoff width' height' buffer i (j # js) =
     (if raster_band_null hds j then (Inr (0, buffer), [])
      else if mask_band_null hds j then (Inr (0, buffer), [])
      else
        (let K = shape_cols (shape buffer);
             call = \<lparr>nc_target = MaskBandIO, nc_mode = mode, nc_xoff = xoff, nc_yoff = yoff,
                      nc_xsize = width', nc_ysize = height', nc_buf_xsize = K,
                      nc_buf_ysize = shape_rows (shape buffer), nc_gdt = 1, nc_bandmap = [j],
                      nc_mem = (if mode = 0 then None
                                else Some (\<lambda>p m. of_nat (unat (cells buffer i (m div K) (m mod K)))))\<rparr>;
             (retval, mem) = mask_io hds call;
             buffer' = (if mode = 0
                        then buffer\<lparr>cells := (\<lambda>b r c. if b = i then mem (r * K + c) else cells buffer b r c)\<rparr>
                        else buffer)
         in if retval \<noteq> 0 then (Inr (retval, buffer'), [call])
            else (case io_multi_mask_loop hds mode xoff yoff width' height' buffer' (Suc i) js of
                    (res, calls) \<Rightarrow> (res, call # calls))))"

definition io_multi_mask ::
  "dataset \<Rightarrow> nat \<Rightarrow> int \<Rightarrow> int \<Rightarrow> int \<Rightarrow> int \<Rightarrow> (8 word) ndarray \<Rightarrow> int list \<Rightarrow> nat
     \<Rightarrow> (int \<times> (8 word) ndarray) traced" where
  "io_multi_mask hds mode xoff yoff width' height' buffer indexes' count' =
     (case shape buffer of
        Shape2 r c \<Rightarrow> (Inl (ValueError ''Buffer has wrong number of dimensions (expected 3, got 2)''), [])
      | Shape3 n r c \<Rightarrow>
          io_multi_mask_loop hds mode xoff yoff width' height' buffer 0 (take count' indexes'))"

text \<open>
  The chain \<open>if gdt == 1: ... elif gdt == 11: ...\<close>, the same in \<open>_read\<close> (mode 0) and in
  \<open>write\<close> (mode 1); with no branch taken \<open>retval\<close> keeps its initial 0.
\<close>

definition io_dispatch ::
  "env \<Rightarrow> nat \<Rightarrow> dataset \<Rightarrow> nat \<Rightarrow> int \<Rightarrow> int \<Rightarrow> int \<Rightarrow> int \<Rightarrow> pixel ndarray \<Rightarrow> int list \<Rightarrow> nat
     \<Rightarrow> (int \<times> pixel ndarray) traced" where
  "io_dispatch e gdt hds mode xoff yoff width' height' buf indexes' count' =
     (if gdt = 1 then io_multi_ubyte hds mode xoff yoff width' height' buf indexes' count'
      else if gdt = 2 then io_multi_uint16 hds mode xoff yoff width' height' buf indexes' count'
      else if gdt = 3 then io_multi_int16 hds mode xoff yoff width' height' buf indexes' count'
      else if gdt = 4 then io_multi_uint32 hds mode xoff yoff width' height' buf indexes' count'
      else if gdt = 5 then io_multi_int32 hds mode xoff yoff width' height' buf indexes' count'
      else if gdt = 6 then io_multi_float32 hds mode xoff yoff width' height' buf indexes' count'
      else if gdt = 7 then io_multi_float64 hds mode xoff yoff width' height' buf indexes' count'
      else if gdt = 8 then io_multi_cint16 e hds mode xoff yoff width' height' buf indexes' count'
      else if gdt = 9 then io_multi_cint32 e hds mode xoff yoff width' height' buf indexes' count'
      else if gdt = 10 then io_multi_cfloat32 e hds mode xoff yoff width' height' buf indexes' count'
      else if gdt = 11 then io_multi_cfloat64 e hds mode xoff yoff width' height' buf indexes' count'
      else (Inr (0, buf), []))"

text \<open>
  \<open>if retval in (1, 2, 3): raise IOError(...)  elif retval == 4: raise ValueError(...)\<close>
\<close>

definition check_retval :: "int \<Rightarrow> py_error option" where
  "check_retval retval =
     (if retval = 1 \<or> retval = 2 \<or> retval = 3 then Some (IOError ''Read or write failed'')
      else if retval = 4 then Some (ValueError ''NULL band'')
      else None)"

text \<open>
  The cast \<open><int>v\<close> of a Python integer raises \<open>OverflowError\<close> when the value
  does not fit a C \<open>int\<close> of 32 bits; the difference of two C \<open>int\<close>s wraps
  around at 32 bits.
\<close>

definition c_int :: "int \<Rightarrow> py_error + int" where
  "c_int v =
     (if - 2147483648 \<le> v \<and> v \<le> 2147483647 then Inr v
      else Inl (OverflowError ''value too large to convert to int''))"

definition c_int_sub :: "int \<Rightarrow> int \<Rightarrow> int" where
  "c_int_sub a b = (a - b + 2147483648) mod 4294967296 - 2147483648"

text \<open>
  "Prepare the IO window", the same statements in \<open>_read\<close> and in \<open>write\<close>:
  \<^verbatim>\<open>
  if window:
      window = windows.evaluate(window, self.height, self.width)
      yoff = <int>window[0][0]
      xoff = <int>window[1][0]
      height = <int>window[0][1] - yoff
      width = <int>window[1][1] - xoff
  else:
      xoff = yoff = <int>0
      width = <int>self.width
      height = <int>self.height
  \<close>
  The result is \<open>(xoff, yoff, width, height)\<close>.
\<close>

definition io_window :: "env \<Rightarrow> dataset \<Rightarrow> window option \<Rightarrow> py_error + (int \<times> int \<times> int \<times> int)" where
  "io_window e ds window =
     (case window of
        Some w \<Rightarrow>
          (case evaluate e w (height ds) (width ds) of
             Inl err \<Rightarrow> Inl err
           | Inr ((r0, r1), (c0, c1)) \<Rightarrow>
          (case c_int r0 of
             Inl err \<Rightarrow> Inl err
           | Inr yoff \<Rightarrow>
          (case c_int c0 of
             Inl err \<Rightarrow> Inl err
           | Inr xoff \<Rightarrow>
          (case c_int r1 of
             Inl err \<Rightarrow> Inl err
           | Inr r_stop \<Rightarrow>
          (case c_int c1 of
             Inl err \<Rightarrow> Inl err
           | Inr c_stop \<Rightarrow>
               Inr (xoff, yoff, c_int_sub c_stop xoff, c_int_sub r_stop yoff))))))
      | None \<Rightarrow>
          (case c_int (width ds) of
             Inl err \<Rightarrow> Inl err
           | Inr width' \<Rightarrow>
          (case c_int (height ds) of
             Inl err \<Rightarrow> Inl err
           | Inr height' \<Rightarrow> Inr (0, 0, width', height'))))"

text \<open>
  \<open>_read\<close>, split by the type of the buffer: \<open>u_read\<close> is the call with
  \<open>masks=False\<close> and \<open>u_read_masks\<close> the call with \<open>masks=True\<close> (where the buffer
  is \<open>uint8\<close> and the transfer goes through \<open>io_multi_mask\<close>). The warning that
  \<open>_read\<close> issues when nodata shadows an alpha band has no effect on the result and
  is left out.
\<close>

definition u_read ::
  "env \<Rightarrow> dataset \<Rightarrow> int list \<Rightarrow> pixel ndarray \<Rightarrow> window option \<Rightarrow> dtype \<Rightarrow> (pixel ndarray) traced" where
  "u_read e ds indexes' out window dtype' =
     (if \<not> hds_open ds then (Inl (ValueError ''can't read closed raster file''), [])
      else
        (case io_window e ds window of
           Inl err \<Rightarrow> (Inl err, [])
         | Inr (xoff, yoff, width', height') \<Rightarrow>
             (case io_dispatch e (dtype_rev dtype') ds 0 xoff yoff width' height' out indexes'
                     (length indexes') of
                (Inl err, calls) \<Rightarrow> (Inl err, calls)
              | (Inr (retval, out'), calls) \<Rightarrow>
                  (case check_retval retval of
                     Some err \<Rightarrow> (Inl err, calls)
                   | None \<Rightarrow> (Inr out', calls)))))"

definition u_read_masks ::
  "env \<Rightarrow> dataset \<Rightarrow> int list \<Rightarrow> (8 word) ndarray \<Rightarrow> window option \<Rightarrow> ((8 word) ndarray) traced" where
  "u_read_masks e ds indexes' out window =
     (if \<not> hds_open ds then (Inl (ValueError ''can't read closed raster file''), [])
      else
        (case io_window e ds window of
           Inl err \<Rightarrow> (Inl err, [])
         | Inr (xoff, yoff, width', height') \<Rightarrow>
             (case io_multi_mask ds 0 xoff yoff width' height' out indexes' (length indexes') of
                (Inl err, calls) \<Rightarrow> (Inl err, calls)
              | (Inr (retval, out'), calls) \<Rightarrow>
                  (case check_retval retval of
                     Some err \<Rightarrow> (Inl err, calls)
                   | None \<Rightarrow> (Inr out', calls)))))"

subsection \<open>Python and numpy helpers\<close>

text \<open>
  \<open>int(x)\<close> truncates towards zero; \<open>round(x)\<close> is Python 3's, which rounds a half
  to the even neighbour (both exact on the value of a double); \<open>float(a) / b\<close> raises
  on a zero divisor and is the double of the environment otherwise.
\<close>

definition py_int :: "rat \<Rightarrow> int" where
  "py_int x = (if 0 \<le> x then \<lfloor>x\<rfloor> else \<lceil>x\<rceil>)"

definition py_round :: "rat \<Rightarrow> int" where
  "py_round x =
     (let f = \<lfloor>x\<rfloor>; d = x - of_int f
      in if d < 1 / 2 then f
         else if 1 / 2 < d then f + 1
         else if even f then f else f + 1)"

definition float_div :: "env \<Rightarrow> nat \<Rightarrow> int \<Rightarrow> py_error + rat" where
  "float_div e a b =
     (if b = 0 then Inl (ZeroDivisionError ''float division by zero'')
      else Inr (float_quot e a b))"

text \<open>The shape check of \<open>np.zeros\<close> and \<open>np.empty\<close> on a triple of Python integers.\<close>

definition np_shape3 :: "int \<times> int \<times> int \<Rightarrow> py_error + shape" where
  "np_shape3 s =
     (case s of (n, r, c) \<Rightarrow>
        if n < 0 \<or> r < 0 \<or> c < 0 then Inl (ValueError ''negative dimensions are not allowed'')
        else Inr (Shape3 (nat n) (nat r) (nat c)))"

text \<open>
  A slice \<open>a:b\<close> on an axis of length \<open>n\<close>: the first position and the number of
  positions it selects.
\<close>

definition py_slice :: "nat \<Rightarrow> int \<Rightarrow> int \<Rightarrow> nat \<times> nat" where
  "py_slice n a b =
     (let s = (if a < 0 then max (a + int n) 0 else min a (int n));
          t = (if b < 0 then max (b + int n) 0 else min b (int n))
      in (nat s, nat (t - s)))"

text \<open>
  The loop
  \<^verbatim>\<open>
  for dst, src in zip(out if len(out.shape) == 3 else [out],
                      data if len(data.shape) == 3 else [data]):
      dst[roff:roff+data_h, coff:coff+data_w] = src
  \<close>
  on the cells of \<open>out\<close> (shape \<open>dshape\<close>) and \<open>data\<close> (shape \<open>sshape\<close>). numpy
  broadcasts a source axis of length 1 and raises when the source does not fit the slice.
\<close>

definition planes :: "shape \<Rightarrow> nat" where
  "planes s = (if ndim s = 3 then shape0 s else 1)"

definition assign_planes ::
  "shape \<Rightarrow> (nat \<Rightarrow> nat \<Rightarrow> nat \<Rightarrow> 'a) \<Rightarrow> int \<Rightarrow> int \<Rightarrow> int \<Rightarrow> int \<Rightarrow> shape \<Rightarrow> (nat \<Rightarrow> nat \<Rightarrow> nat \<Rightarrow> 'a)
     \<Rightarrow> py_error + (nat \<Rightarrow> nat \<Rightarrow> nat \<Rightarrow> 'a)" where
  "assign_planes dshape dcells roff coff data_h data_w sshape scells =
     (let npairs = min (planes dshape) (planes sshape);
          (rs, rl) = py_slice (shape_rows dshape) roff (roff + data_h);
          (cs, cl) = py_slice (shape_cols dshape) coff (coff + data_w);
          sh = shape_rows sshape;
          sw = shape_cols sshape
      in if npairs = 0 then Inr dcells
         else if (sh = rl \<or> sh = 1) \<and> (sw = cl \<or> sw = 1)
         then Inr (\<lambda>b i j.
                if b < npairs \<and> rs \<le> i \<and> i < rs + rl \<and> cs \<le> j \<and> j < cs + cl
                then scells b (if sh = 1 then 0 else i - rs) (if sw = 1 then 0 else j - cs)
                else dcells b i j)
         else Inl (ValueError ''could not broadcast input array''))"

subsection \<open>Resolving indexes and windows\<close>

datatype index_arg = IndexInt int | IndexList "int list"

text \<open>
  The opening statements of \<open>read\<close> and of \<open>read_masks\<close>:
  \<^verbatim>\<open>
  return2d = False
  if indexes is None:
      indexes = self.indexes
  elif isinstance(indexes, int):
      indexes = [indexes]
      return2d = True
      if out is not None and out.ndim == 2:
          out.shape = (1,) + out.shape
  if not indexes:
      raise ValueError("No indexes to read")
  \<close>
\<close>

definition resolve_indexes ::
  "dataset \<Rightarrow> index_arg option \<Rightarrow> 'a ndarray option
     \<Rightarrow> py_error + (int list \<times> bool \<times> 'a ndarray option)" where
  "resolve_indexes ds indexes' out =
     (let (idx, return2d, out') =
            (case indexes' of
               None \<Rightarrow> (indexes ds, False, out)
             | Some (IndexInt i) \<Rightarrow>
                 ([i], True,
                  map_option (\<lambda>a. case shape a of
                                     Shape2 r c \<Rightarrow> a\<lparr>shape := Shape3 1 r c\<rparr>
                                   | Shape3 n r c \<Rightarrow> a) out)
             | Some (IndexList l) \<Rightarrow> (l, False, out))
      in if idx = [] then Inl (ValueError ''No indexes to read'')
         else Inr (idx, return2d, out'))"

text \<open>
  The overlap of a boundless window with the dataset, as \<open>read\<close> and \<open>read_masks\<close>
  compute it.
\<close>

definition overlap_window :: "dataset \<Rightarrow> window \<Rightarrow> window" where
  "overlap_window ds w =
     (case w of ((r0, r1), (c0, c1)) \<Rightarrow>
        ((max (min r0 (height ds)) 0, max (min r1 (height ds)) 0),
         (max (min c0 (width ds)) 0, max (min c1 (width ds)) 0)))"

text \<open>
  The clipping that \<open>read_masks\<close> writes out after \<open>windows.evaluate\<close>
  (\<open>minr = min(max(w[0][0], 0), self.height)\<close>, \<open>maxr = max(0, min(w[0][1], self.height))\<close>
  and the same for columns).
\<close>

definition clip_window :: "window \<Rightarrow> int \<Rightarrow> int \<Rightarrow> window" where
  "clip_window w h wd =
     (case w of ((r0, r1), (c0, c1)) \<Rightarrow>
        ((min (max r0 0) h, max 0 (min r1 h)), (min (max c0 0) wd, max 0 (min c1 wd))))"

text \<open>
  Modelled from the spec: \<open>rasterio.windows.crop\<close> is not among the sources. The spec
  has a resolved window of a non-boundless request clipped to \<open>[0, height]\<close> by
  \<open>[0, width]\<close>, which is the clipping \<open>read_masks\<close> writes out in place of the call.
\<close>

definition crop :: "window \<Rightarrow> int \<Rightarrow> int \<Rightarrow> window" where
  "crop w h wd = clip_window w h wd"

subsection \<open>\<open>read_masks\<close>\<close>

text \<open>The natural shape of the window and the window handed on, in \<open>read_masks\<close>.\<close>

definition masks_win_shape ::
  "env \<Rightarrow> dataset \<Rightarrow> int list \<Rightarrow> window option \<Rightarrow> bool
     \<Rightarrow> py_error + ((int \<times> int \<times> int) \<times> window option)" where
  "masks_win_shape e ds idx window boundless =
     (case window of
        Some w \<Rightarrow>
          (if boundless
           then (case w of ((r0, r1), (c0, c1)) \<Rightarrow>
                   Inr ((int (length idx), r1 - r0, c1 - c0), Some w))
           else (case evaluate e w (height ds) (width ds) of
                   Inl err \<Rightarrow> Inl err
                 | Inr w' \<Rightarrow>
                     (case clip_window w' (height ds) (width ds) of
                        ((minr, maxr), (minc, maxc)) \<Rightarrow>
                          Inr ((int (length idx), maxr - minr, maxc - minc),
                               Some ((minr, maxr), (minc, maxc))))))
      | None \<Rightarrow> Inr ((int (length idx), height ds, width ds), None))"

definition np_zeros_uint8 :: "shape \<Rightarrow> (8 word) ndarray" where
  "np_zeros_uint8 s = \<lparr>shape = s, adtype = UInt8, c_contiguous = True, cells = (\<lambda>b r c. 0)\<rparr>"

text \<open>\<open>np.empty(shape, 'uint8')\<close>: fresh memory, whatever it holds, read as bytes.\<close>

definition np_empty_uint8 :: "env \<Rightarrow> shape \<Rightarrow> (8 word) ndarray" where
  "np_empty_uint8 e s =
     \<lparr>shape = s, adtype = UInt8, c_contiguous = True,
      cells = (\<lambda>b r c. word_of_int \<lfloor>uninitialised e b (r * shape_cols s + c)\<rfloor>)\<rparr>"

text \<open>
  The output buffer of \<open>read_masks\<close>: \<open>out\<close> and \<open>out_shape\<close> exclude each other; a
  given buffer must be \<open>uint8\<close> and have one plane per index; without a buffer zeros
  of the natural shape are allocated.
\<close>

definition masks_out ::
  "(8 word) ndarray option \<Rightarrow> shape option \<Rightarrow> int \<times> int \<times> int \<Rightarrow> py_error + (8 word) ndarray" where
  "masks_out out out_shape win_shape =
     (if out \<noteq> None \<and> out_shape \<noteq> None then Inl (ValueError ''out and out_shape are exclusive'')
      else
        (let out1 = (case out_shape of
                       Some s \<Rightarrow> Some (np_zeros_uint8 (case s of Shape2 r c \<Rightarrow> Shape3 1 r c
                                                         | Shape3 n r c \<Rightarrow> s))
                     | None \<Rightarrow> out)
         in case out1 of
              Some a \<Rightarrow>
                if adtype a \<noteq> UInt8
                then Inl (ValueError ''the out array's dtype does not match uint8'')
                else if int (shape0 (shape a)) \<noteq> fst win_shape
                then Inl (ValueError ''out shape does not match window shape'')
                else Inr a
            | None \<Rightarrow>
                (case np_shape3 win_shape of
                   Inl err \<Rightarrow> Inl err
                 | Inr s \<Rightarrow> Inr (np_zeros_uint8 s))))"

text \<open>
  The scaling factors of the boundless branches:
  \<open>scaling_h = float(out.shape[-2:][0])/window_h\<close> and
  \<open>scaling_w = float(out.shape[-2:][1])/window_w\<close>.
\<close>

definition scaling :: "env \<Rightarrow> shape \<Rightarrow> int \<times> int \<times> int \<Rightarrow> py_error + (rat \<times> rat)" where
  "scaling e out_shape win_shape =
     (case win_shape of (n, window_h, window_w) \<Rightarrow>
        (case float_div e (shape_rows out_shape) window_h of
           Inl err \<Rightarrow> Inl err
         | Inr scaling_h \<Rightarrow>
             (case float_div e (shape_cols out_shape) window_w of
                Inl err \<Rightarrow> Inl err
              | Inr scaling_w \<Rightarrow> Inr (scaling_h, scaling_w))))"

text \<open>The boundless branch of \<open>read_masks\<close> (a window is given and \<open>boundless\<close> is set).\<close>

definition masks_overlap ::
  "env \<Rightarrow> dataset \<Rightarrow> int list \<Rightarrow> (8 word) ndarray \<Rightarrow> window \<Rightarrow> window \<Rightarrow> int \<times> int \<times> int
     \<Rightarrow> ((8 word) ndarray) traced" where
  "masks_overlap e ds idx out w overlap win_shape =
     (case (win_shape, overlap, w) of
        ((n, window_h, window_w), ((o_r0, o_r1), (o_c0, o_c1)), ((w_r0, w_r1), (w_c0, w_c1))) \<Rightarrow>
          (case scaling e (shape out) win_shape of
             Inl err \<Rightarrow> (Inl err, [])
           | Inr (scaling_h, scaling_w) \<Rightarrow>
               (case np_shape3 (n, py_int (float_prod e (o_r1 - o_r0) scaling_h),
                                   py_int (float_prod e (o_c1 - o_c0) scaling_w)) of
                  Inl err \<Rightarrow> (Inl err, [])
                | Inr buffer_shape \<Rightarrow>
                    (case u_read_masks e ds idx (np_empty_uint8 e buffer_shape) (Some overlap) of
                       (Inl err, calls) \<Rightarrow> (Inl err, calls)
                     | (Inr data, calls) \<Rightarrow>
                         (let data_h = int (shape_rows (shape data));
                              data_w = int (shape_cols (shape data));
                              roff = (if w_r0 < 0
                                      then py_int (float_prod e window_h scaling_h) - data_h else 0);
                              coff = (if w_c0 < 0
                                      then py_int (float_prod e window_w scaling_w) - data_w else 0)
                          in case assign_planes (shape out) (cells out) roff coff data_h data_w
                                    (shape data) (cells data) of
                               Inl err \<Rightarrow> (Inl err, calls)
                             | Inr cells' \<Rightarrow> (Inr (out\<lparr>cells := cells'\<rparr>), calls))))))"

definition masks_boundless ::
  "env \<Rightarrow> dataset \<Rightarrow> int list \<Rightarrow> (8 word) ndarray \<Rightarrow> window \<Rightarrow> int \<times> int \<times> int
     \<Rightarrow> ((8 word) ndarray) traced" where
  "masks_boundless e ds idx out w win_shape =
     (let overlap = overlap_window ds w
      in if overlap \<noteq> ((0, 0), (0, 0))
         then masks_overlap e ds idx out w overlap win_shape
         else (Inr out, []))"

definition read_masks ::
  "env \<Rightarrow> dataset \<Rightarrow> index_arg option \<Rightarrow> (8 word) ndarray option \<Rightarrow> shape option \<Rightarrow> window option
     \<Rightarrow> bool \<Rightarrow> ((8 word) ndarray) traced" where
  "read_masks e ds indexes' out out_shape window boundless =
     (case resolve_indexes ds indexes' out of
        Inl err \<Rightarrow> (Inl err, [])
      | Inr (idx, return2d, out1) \<Rightarrow>
     (case masks_win_shape e ds idx window boundless of
        Inl err \<Rightarrow> (Inl err, [])
      | Inr (win_shape, window') \<Rightarrow>
     (case masks_out out1 out_shape win_shape of
        Inl err \<Rightarrow> (Inl err, [])
      | Inr out2 \<Rightarrow>
     (case (case window' of
              None \<Rightarrow> u_read_masks e ds idx out2 None
            | Some w \<Rightarrow>
                if \<not> boundless then u_read_masks e ds idx out2 (Some w)
                else masks_boundless e ds idx out2 w win_shape) of
        (Inl err, calls) \<Rightarrow> (Inl err, calls)
      | (Inr out3, calls) \<Rightarrow>
          (Inr (if return2d then out3\<lparr>shape := shape_tail (shape out3)\<rparr> else out3), calls)))))"

subsection \<open>\<open>dataset_mask\<close>\<close>

text \<open>\<open>mask | other\<close> on two \<open>uint8\<close> arrays.\<close>

definition np_or :: "(8 word) ndarray \<Rightarrow> (8 word) ndarray \<Rightarrow> py_error + (8 word) ndarray" where
  "np_or a b =
     (if shape a = shape b
      then Inr (a\<lparr>cells := (\<lambda>p r c. cells a p r c OR cells b p r c)\<rparr>)
      else Inl (ValueError ''operands could not be broadcast together''))"

text \<open>
  The loop \<open>for i in range(1, self.count): mask = mask | self.read_masks(i, **kwargs)\<close>,
  over the values \<open>i\<close> still to come.
\<close>

fun dataset_mask_loop ::
  "env \<Rightarrow> dataset \<Rightarrow> window option \<Rightarrow> bool \<Rightarrow> (8 word) ndarray \<Rightarrow> nat list
     \<Rightarrow> ((8 word) ndarray) traced" where
  "dataset_mask_loop e ds window boundless msk [] = (Inr msk, [])"
| "dataset_mask_loop e ds window boundless msk (i # rest) =
     (case read_masks e ds (Some (IndexInt (int i))) None None window boundless of
        (Inl err, calls) \<Rightarrow> (Inl err, calls)
      | (Inr m, calls) \<Rightarrow>
          (case np_or msk m of
             Inl err \<Rightarrow> (Inl err, calls)
           | Inr msk' \<Rightarrow>
               (case dataset_mask_loop e ds window boundless msk' rest of
                  (res, calls') \<Rightarrow> (res, calls @ calls'))))"

definition dataset_mask ::
  "env \<Rightarrow> dataset \<Rightarrow> window option \<Rightarrow> bool \<Rightarrow> ((8 word) ndarray) traced" where
  "dataset_mask e ds window boundless =
     (case mask_flags ds of
        [] \<Rightarrow> (Inl (IndexError ''list index out of range''), [])
      | flags0 # _ \<Rightarrow>
          if flags0 AND MaskFlags_per_dataset \<noteq> 0
          then read_masks e ds (Some (IndexInt 1)) None None window boundless
          else if count ds = 4 \<and> colorinterp ds 1 = Red
          then read_masks e ds (Some (IndexInt 4)) None None window boundless
          else
            (case read_masks e ds (Some (IndexInt 1)) None None window boundless of
               (Inl err, calls) \<Rightarrow> (Inl err, calls)
             | (Inr msk, calls) \<Rightarrow>
                 (case dataset_mask_loop e ds window boundless msk [1 ..< count ds] of
                    (res, calls') \<Rightarrow> (res, calls @ calls'))))"

subsection \<open>\<open>read\<close>\<close>

text \<open>\<open>xs.index(x)\<close> for a member \<open>x\<close>, and \<open>xs[i]\<close>.\<close>

fun index_of :: "int list \<Rightarrow> int \<Rightarrow> nat" where
  "index_of [] x = 0"
| "index_of (y # ys) x = (if y = x then 0 else Suc (index_of ys x))"

definition py_nth :: "'a list \<Rightarrow> nat \<Rightarrow> py_error + 'a" where
  "py_nth xs i = (if i < length xs then Inr (xs ! i) else Inl (IndexError ''list index out of range''))"

text \<open>
  The loop over the requested indexes in \<open>read\<close>: each must be a valid index; the
  encodings met are collected, and the nodata value of each band is clamped into the
  range of the band's encoding. The result lists both in request order.
\<close>

fun read_check_indexes :: "dataset \<Rightarrow> int list \<Rightarrow> py_error + (dtype list \<times> rat option list)" where
  "read_check_indexes ds [] = Inr ([], [])"
| "read_check_indexes ds (bidx # rest) =
     (if bidx \<notin> set (indexes ds) then Inl (IndexError ''band index out of range'')
      else
        (case py_nth (dtypes ds) (index_of (indexes ds) bidx) of
           Inl err \<Rightarrow> Inl err
         | Inr dtype' \<Rightarrow>
        (case py_nth (nodatavals ds) (index_of (indexes ds) bidx) of
           Inl err \<Rightarrow> Inl err
         | Inr ndv \<Rightarrow>
        (case read_check_indexes ds rest of
           Inl err \<Rightarrow> Inl err
         | Inr (check_dtypes, ndvs) \<Rightarrow>
             Inr (dtype' # check_dtypes, clamp_nodata dtype' ndv # ndvs)))))"

text \<open>
  \<^verbatim>\<open>
  if len(check_dtypes) > 1:
      raise ValueError("more than one 'dtype' found")
  elif len(check_dtypes) == 0:
      dtype = self.dtypes[0]
  else:
      dtype = check_dtypes.pop()
  \<close>
  where \<open>check_dtypes\<close> is a set; the model keeps the list and counts its distinct
  members.
\<close>

definition common_dtype :: "dataset \<Rightarrow> dtype list \<Rightarrow> py_error + dtype" where
  "common_dtype ds check_dtypes =
     (if length (remdups check_dtypes) > 1 then Inl (ValueError ''more than one 'dtype' found'')
      else (case check_dtypes of
              [] \<Rightarrow> py_nth (dtypes ds) 0
            | d # _ \<Rightarrow> Inr d))"

text \<open>The natural shape of the read window and the window handed on, in \<open>read\<close>.\<close>

definition read_win_shape ::
  "env \<Rightarrow> dataset \<Rightarrow> int list \<Rightarrow> window option \<Rightarrow> bool
     \<Rightarrow> py_error + ((int \<times> int \<times> int) \<times> window option)" where
  "read_win_shape e ds idx window boundless =
     (case window of
        Some w \<Rightarrow>
          (if boundless
           then (case w of ((r0, r1), (c0, c1)) \<Rightarrow>
                   Inr ((int (length idx), r1 - r0, c1 - c0), Some w))
           else (case evaluate e w (height ds) (width ds) of
                   Inl err \<Rightarrow> Inl err
                 | Inr w' \<Rightarrow>
                     (case crop w' (height ds) (width ds) of
                        ((r_start, r_stop), (c_start, c_stop)) \<Rightarrow>
                          Inr ((int (length idx), r_stop - r_start, c_stop - c_start),
                               Some ((r_start, r_stop), (c_start, c_stop))))))
      | None \<Rightarrow> Inr ((int (length idx), height ds, width ds), None))"

text \<open>\<open>np.empty(shape, dtype)\<close>: fresh memory, whatever it holds.\<close>

definition np_empty :: "env \<Rightarrow> shape \<Rightarrow> dtype \<Rightarrow> pixel ndarray" where
  "np_empty e s dt =
     \<lparr>shape = s, adtype = dt, c_contiguous = True,
      cells = (if dtype_kind dt = KindC then deinterleave (shape_cols s) (uninitialised e)
               else unflatten (shape_cols s) (uninitialised e))\<rparr>"

text \<open>
  \<open>out\<close> and \<open>out_shape\<close> exclude each other; \<open>out_shape\<close> allocates with
  \<open>np.empty\<close>; a buffer, given or just allocated, must have the bands' encoding and one
  plane per index. Rows and columns are not compared with the window.
\<close>

definition read_out ::
  "env \<Rightarrow> pixel ndarray option \<Rightarrow> shape option \<Rightarrow> dtype \<Rightarrow> int \<times> int \<times> int
     \<Rightarrow> py_error + pixel ndarray option" where
  "read_out e out out_shape dtype' win_shape =
     (if out \<noteq> None \<and> out_shape \<noteq> None then Inl (ValueError ''out and out_shape are exclusive'')
      else
        (let out1 = (case out_shape of
                       Some s \<Rightarrow> Some (np_empty e (case s of Shape2 r c \<Rightarrow> Shape3 1 r c
                                                     | Shape3 n r c \<Rightarrow> s) dtype')
                     | None \<Rightarrow> out)
         in case out1 of
              Some a \<Rightarrow>
                if adtype a \<noteq> dtype'
                then Inl (ValueError ''the array's dtype does not match the file's dtype'')
                else if int (shape0 (shape a)) \<noteq> fst win_shape
                then Inl (ValueError ''out shape does not match window shape'')
                else Inr (Some a)
            | None \<Rightarrow> Inr None))"

text \<open>
  Modelled from the spec: \<open>DatasetBase.band\<close> is not among the sources; a band that
  cannot be resolved to a native band object is fatal (spec, section 7), as in the
  \<open>band\<close> method of \<open>InMemoryRaster\<close>, which raises on a null handle.
\<close>

definition band :: "dataset \<Rightarrow> int \<Rightarrow> py_error + unit" where
  "band ds j = (if raster_band_null ds j then Inl (ValueError ''NULL band'') else Inr ())"

text \<open>
  \<^verbatim>\<open>
  mask_flags = [0]*self.count
  for i, j in zip(range(self.count), self.indexes):
      band = self.band(j)
      mask_flags[i] = GDALGetMaskFlags(band)
  all_valid = all([flag & 0x01 == 1 for flag in mask_flags])
  \<close>
  The flags of every band of the dataset are read, not those of the requested bands.
\<close>

fun read_mask_flags :: "dataset \<Rightarrow> int list \<Rightarrow> py_error + nat list" where
  "read_mask_flags ds [] = Inr []"
| "read_mask_flags ds (j # js) =
     (case band ds j of
        Inl err \<Rightarrow> Inl err
      | Inr u \<Rightarrow>
          (case read_mask_flags ds js of
             Inl err \<Rightarrow> Inl err
           | Inr flags \<Rightarrow> Inr (get_mask_flags ds j # flags)))"

definition read_all_valid :: "dataset \<Rightarrow> py_error + bool" where
  "read_all_valid ds =
     (let js = take (count ds) (indexes ds)
      in case read_mask_flags ds js of
           Inl err \<Rightarrow> Inl err
         | Inr flags \<Rightarrow>
             Inr (list_all (\<lambda>flag. flag AND 1 = 1) (flags @ replicate (count ds - length js) 0)))"

text \<open>
  Storing a number into an array of the given encoding: an integer encoding truncates
  towards zero, a complex encoding gets the imaginary part zero. (The rounding of a
  double to single precision is not modelled.)
\<close>

definition np_cast :: "dtype \<Rightarrow> rat \<Rightarrow> pixel" where
  "np_cast dt v =
     (case dtype_kind dt of
        KindI \<Rightarrow> PReal (of_int (py_int v))
      | KindU \<Rightarrow> PReal (of_int (py_int v))
      | KindF \<Rightarrow> PReal v
      | KindC \<Rightarrow> PComplex v 0)"

text \<open>
  \<^verbatim>\<open>
  out = np.zeros(win_shape, dtype)
  for ndv, arr in zip(nodatavals, out if len(out.shape) == 3 else [out]):
      if ndv is not None:
          arr.fill(ndv)
  \<close>
\<close>

definition np_zeros_filled :: "dtype \<Rightarrow> shape \<Rightarrow> rat option list \<Rightarrow> pixel ndarray" where
  "np_zeros_filled dt s ndvs =
     \<lparr>shape = s, adtype = dt, c_contiguous = True,
      cells = (\<lambda>b r c. if b < min (length ndvs) (planes s)
                        then (case ndvs ! b of Some v \<Rightarrow> np_cast dt v | None \<Rightarrow> np_cast dt 0)
                        else np_cast dt 0)\<rparr>"

text \<open>
  The result of \<open>read\<close>: a plain array, or a numpy masked array with its mask
  (\<open>None\<close> is \<open>np.ma.nomask\<close>) and its fill value (\<open>None\<close> when none was passed
  to the constructor).
\<close>

datatype read_result =
    Plain "pixel ndarray"
  | Masked "pixel ndarray" "boolmask option" "rat option"

text \<open>
  \<^verbatim>\<open>
  if len(set(nodatavals)) == 1:
      if nodatavals[0] is not None:
          kwds['fill_value'] = nodatavals[0]
  \<close>
\<close>

definition fill_value_kwd :: "rat option list \<Rightarrow> rat option" where
  "fill_value_kwd ndvs =
     (if length (remdups ndvs) = 1 then (case ndvs of [] \<Rightarrow> None | v # _ \<Rightarrow> v) else None)"

text \<open>\<open>~m.astype('bool')\<close>, and the mask that \<open>mask=True\<close> stands for.\<close>

definition invert_mask :: "(8 word) ndarray \<Rightarrow> boolmask" where
  "invert_mask m = \<lparr>bshape = shape m, bcells = (\<lambda>b r c. \<not> (cells m b r c \<noteq> 0))\<rparr>"

definition full_mask :: "shape \<Rightarrow> boolmask" where
  "full_mask s = \<lparr>bshape = s, bcells = (\<lambda>b r c. True)\<rparr>"

text \<open>The branch \<open>if not boundless or not window\<close> of \<open>read\<close>.\<close>

definition read_direct ::
  "env \<Rightarrow> dataset \<Rightarrow> int list \<Rightarrow> pixel ndarray \<Rightarrow> window option \<Rightarrow> dtype \<Rightarrow> bool \<Rightarrow> bool
     \<Rightarrow> rat option list \<Rightarrow> read_result traced" where
  "read_direct e ds idx out window dtype' masked all_valid ndvs =
     (case u_read e ds idx out window dtype' of
        (Inl err, calls) \<Rightarrow> (Inl err, calls)
      | (Inr out', calls) \<Rightarrow>
          if masked
          then (if all_valid then (Inr (Masked out' None (fill_value_kwd ndvs)), calls)
                else (case u_read_masks e ds idx (np_empty_uint8 e (shape out')) window of
                        (Inl err, calls') \<Rightarrow> (Inl err, calls @ calls')
                      | (Inr m, calls') \<Rightarrow>
                          (Inr (Masked out' (Some (invert_mask m)) (fill_value_kwd ndvs)),
                           calls @ calls')))
          else (Inr (Plain out'), calls))"

text \<open>
  The boundless branch of \<open>read\<close>, after the overlap was found different from
  \<open>((0, 0), (0, 0))\<close>: read the overlap into a temporary, the masks into another when
  \<open>masked\<close>, and copy both into place.
\<close>

definition read_overlap_data ::
  "env \<Rightarrow> dataset \<Rightarrow> int list \<Rightarrow> shape \<Rightarrow> window \<Rightarrow> dtype \<Rightarrow> bool
     \<Rightarrow> (pixel ndarray \<times> boolmask option) traced" where
  "read_overlap_data e ds idx buffer_shape overlap dtype' masked =
     (case u_read e ds idx (np_empty e buffer_shape dtype') (Some overlap) dtype' of
        (Inl err, calls) \<Rightarrow> (Inl err, calls)
      | (Inr data, calls) \<Rightarrow>
          if masked
          then (case u_read_masks e ds idx (np_empty_uint8 e buffer_shape) (Some overlap) of
                  (Inl err, calls') \<Rightarrow> (Inl err, calls @ calls')
                | (Inr m, calls') \<Rightarrow> (Inr (data, Some (invert_mask m)), calls @ calls'))
          else (Inr (data, None), calls))"

definition place_overlap ::
  "pixel ndarray \<Rightarrow> pixel ndarray \<Rightarrow> boolmask option \<Rightarrow> int \<Rightarrow> int \<Rightarrow> int \<Rightarrow> int
     \<Rightarrow> rat option list \<Rightarrow> py_error + read_result" where
  "place_overlap out data data_mask roff coff data_h data_w ndvs =
     (case assign_planes (shape out) (cells out) roff coff data_h data_w (shape data) (cells data) of
        Inl err \<Rightarrow> Inl err
      | Inr cells' \<Rightarrow>
          (case data_mask of
             None \<Rightarrow> Inr (Plain (out\<lparr>cells := cells'\<rparr>))
           | Some dm \<Rightarrow>
               (case assign_planes (shape out) (bcells (full_mask (shape out))) roff coff
                       data_h data_w (bshape dm) (bcells dm) of
                  Inl err \<Rightarrow> Inl err
                | Inr mcells \<Rightarrow>
                    Inr (Masked (out\<lparr>cells := cells'\<rparr>)
                           (Some \<lparr>bshape = shape out, bcells = mcells\<rparr>)
                           (fill_value_kwd ndvs)))))"

definition read_overlap ::
  "env \<Rightarrow> dataset \<Rightarrow> int list \<Rightarrow> pixel ndarray \<Rightarrow> window \<Rightarrow> window \<Rightarrow> int \<times> int \<times> int \<Rightarrow> dtype
     \<Rightarrow> bool \<Rightarrow> rat option list \<Rightarrow> read_result traced" where
  "read_overlap e ds idx out w overlap win_shape dtype' masked ndvs =
     (case (win_shape, overlap, w) of
        ((n, window_h, window_w), ((o_r0, o_r1), (o_c0, o_c1)), ((w_r0, w_r1), (w_c0, w_c1))) \<Rightarrow>
          (case scaling e (shape out) win_shape of
             Inl err \<Rightarrow> (Inl err, [])
           | Inr (scaling_h, scaling_w) \<Rightarrow>
               (let data_h = py_round (float_prod e (o_r1 - o_r0) scaling_h);
                    data_w = py_round (float_prod e (o_c1 - o_c0) scaling_w);
                    roff = (if w_r0 < 0 then py_int (float_prod e (- w_r0) scaling_h) else 0);
                    coff = (if w_c0 < 0 then py_int (float_prod e (- w_c0) scaling_w) else 0)
                in case np_shape3 (n, data_h, data_w) of
                     Inl err \<Rightarrow> (Inl err, [])
                   | Inr buffer_shape \<Rightarrow>
                       (case read_overlap_data e ds idx buffer_shape overlap dtype' masked of
                          (Inl err, calls) \<Rightarrow> (Inl err, calls)
                        | (Inr (data, data_mask), calls) \<Rightarrow>
                            (case place_overlap out data data_mask roff coff data_h data_w ndvs of
                               Inl err \<Rightarrow> (Inl err, calls)
                             | Inr res \<Rightarrow> (Inr res, calls))))))"

text \<open>The \<open>else\<close> branch of \<open>if not boundless or not window\<close> in \<open>read\<close>.\<close>

definition read_boundless ::
  "env \<Rightarrow> dataset \<Rightarrow> int list \<Rightarrow> pixel ndarray \<Rightarrow> window \<Rightarrow> int \<times> int \<times> int \<Rightarrow> dtype
     \<Rightarrow> bool \<Rightarrow> rat option list \<Rightarrow> read_result traced" where
  "read_boundless e ds idx out w win_shape dtype' masked ndvs =
     (let overlap = overlap_window ds w
      in if overlap \<noteq> ((0, 0), (0, 0))
         then read_overlap e ds idx out w overlap win_shape dtype' masked ndvs
         else if masked
         then (Inr (Masked out (Some (full_mask (shape out))) (fill_value_kwd ndvs)), [])
         else (Inr (Plain out), []))"

text \<open>\<open>if return2d: out.shape = out.shape[1:]\<close>\<close>

fun squeeze :: "read_result \<Rightarrow> read_result" where
  "squeeze (Plain a) = Plain (a\<lparr>shape := shape_tail (shape a)\<rparr>)"
| "squeeze (Masked a m fv) =
     Masked (a\<lparr>shape := shape_tail (shape a)\<rparr>)
            (map_option (\<lambda>b. b\<lparr>bshape := shape_tail (bshape b)\<rparr>) m) fv"

text \<open>
  Everything \<open>read\<close> does before the first transfer: the indexes, the common encoding
  and the clamped nodata values, the window and its natural shape, the output buffer,
  and with \<open>masked\<close> the mask flags. No native transfer is made here.
\<close>

record read_plan =
  rp_indexes :: "int list"
  rp_return2d :: bool
  rp_nodatavals :: "rat option list"
  rp_dtype :: dtype
  rp_win_shape :: "int \<times> int \<times> int"
  rp_window :: "window option"
  rp_all_valid :: bool
  rp_out :: "pixel ndarray"

definition read_prepare ::
  "env \<Rightarrow> dataset \<Rightarrow> index_arg option \<Rightarrow> pixel ndarray option \<Rightarrow> window option \<Rightarrow> bool
     \<Rightarrow> shape option \<Rightarrow> bool \<Rightarrow> py_error + read_plan" where
  "read_prepare e ds indexes' out window masked out_shape boundless =
     (case resolve_indexes ds indexes' out of
        Inl err \<Rightarrow> Inl err
      | Inr (idx, return2d, out1) \<Rightarrow>
     (case read_check_indexes ds idx of
        Inl err \<Rightarrow> Inl err
      | Inr (check_dtypes, ndvs) \<Rightarrow>
     (case common_dtype ds check_dtypes of
        Inl err \<Rightarrow> Inl err
      | Inr dtype' \<Rightarrow>
     (case read_win_shape e ds idx window boundless of
        Inl err \<Rightarrow> Inl err
      | Inr (win_shape, window') \<Rightarrow>
     (case read_out e out1 out_shape dtype' win_shape of
        Inl err \<Rightarrow> Inl err
      | Inr out2 \<Rightarrow>
     (case (if masked then read_all_valid ds else Inr False) of
        Inl err \<Rightarrow> Inl err
      | Inr all_valid \<Rightarrow>
     (case (case out2 of
              Some a \<Rightarrow> Inr a
            | None \<Rightarrow> (case np_shape3 win_shape of
                         Inl err \<Rightarrow> Inl err
                       | Inr s \<Rightarrow> Inr (np_zeros_filled dtype' s ndvs))) of
        Inl err \<Rightarrow> Inl err
      | Inr out3 \<Rightarrow>
          Inr \<lparr>rp_indexes = idx, rp_return2d = return2d, rp_nodatavals = ndvs, rp_dtype = dtype',
               rp_win_shape = win_shape, rp_window = window', rp_all_valid = all_valid,
               rp_out = out3\<rparr>)))))))"

definition read ::
  "env \<Rightarrow> dataset \<Rightarrow> index_arg option \<Rightarrow> pixel ndarray option \<Rightarrow> window option \<Rightarrow> bool
     \<Rightarrow> shape option \<Rightarrow> bool \<Rightarrow> read_result traced" where
  "read e ds indexes' out window masked out_shape boundless =
     (case read_prepare e ds indexes' out window masked out_shape boundless of
        Inl err \<Rightarrow> (Inl err, [])
      | Inr p \<Rightarrow>
          (case (case rp_window p of
                   None \<Rightarrow>
                     read_direct e ds (rp_indexes p) (rp_out p) None (rp_dtype p) masked
                       (rp_all_valid p) (rp_nodatavals p)
                 | Some w \<Rightarrow>
                     if \<not> boundless
                     then read_direct e ds (rp_indexes p) (rp_out p) (Some w) (rp_dtype p) masked
                            (rp_all_valid p) (rp_nodatavals p)
                     else read_boundless e ds (rp_indexes p) (rp_out p) w (rp_win_shape p)
                            (rp_dtype p) masked (rp_nodatavals p)) of
             (Inl err, calls) \<Rightarrow> (Inl err, calls)
           | (Inr res, calls) \<Rightarrow> (Inr (if rp_return2d p then squeeze res else res), calls)))"

subsection \<open>\<open>write\<close>\<close>

text \<open>
  The caller's array is an object that \<open>write\<close> may or may not work on directly.
  The model carries the working array together with a flag telling whether it still is
  the caller's object, and returns beside the result what the caller's array holds
  afterwards.

  \<^verbatim>\<open>
  if indexes is None:
      indexes = self.indexes
  elif isinstance(indexes, int):
      indexes = [indexes]
      src = np.array([src])
  if len(src.shape) != 3 or src.shape[0] != len(indexes):
      raise ValueError("Source shape is inconsistent with given indexes")
  \<close>
  \<open>np.array([src])\<close> is a new array with one more dimension; of a three-dimensional
  source it has four and fails the check.
\<close>

definition write_source ::
  "dataset \<Rightarrow> pixel ndarray \<Rightarrow> index_arg option \<Rightarrow> py_error + (int list \<times> pixel ndarray \<times> bool)" where
  "write_source ds src indexes' =
     (let inconsistent = Inl (ValueError ''Source shape is inconsistent with given indexes'');
          check = (\<lambda>idx a aliased.
                     if ndim (shape a) \<noteq> 3 \<or> shape0 (shape a) \<noteq> length idx then inconsistent
                     else Inr (idx, a, aliased))
      in case indexes' of
           None \<Rightarrow> check (indexes ds) src True
         | Some (IndexList l) \<Rightarrow> check l src True
         | Some (IndexInt i) \<Rightarrow>
             (case shape src of
                Shape2 r c \<Rightarrow> check [i] (src\<lparr>shape := Shape3 1 r c, c_contiguous := True\<rparr>) False
              | Shape3 n r c \<Rightarrow> inconsistent))"

fun write_check_indexes :: "dataset \<Rightarrow> int list \<Rightarrow> py_error + dtype list" where
  "write_check_indexes ds [] = Inr []"
| "write_check_indexes ds (bidx # rest) =
     (if bidx \<notin> set (indexes ds) then Inl (IndexError ''band index out of range'')
      else
        (case py_nth (dtypes ds) (index_of (indexes ds) bidx) of
           Inl err \<Rightarrow> Inl err
         | Inr dtype' \<Rightarrow>
             (case write_check_indexes ds rest of
                Inl err \<Rightarrow> Inl err
              | Inr check_dtypes \<Rightarrow> Inr (dtype' # check_dtypes))))"

text \<open>
  \<open>np.require(src, dtype=dtype, requirements='C')\<close> after the encodings were found
  equal: the same object when it is C-contiguous, a contiguous copy otherwise. The
  second component tells whether the result is the same object.
\<close>

definition np_require_C :: "pixel ndarray \<Rightarrow> pixel ndarray \<times> bool" where
  "np_require_C a = (if c_contiguous a then (a, True) else (a\<lparr>c_contiguous := True\<rparr>, False))"

text \<open>
  Everything \<open>write\<close> does before the transfer: the result holds the indexes, the
  encoding, the working array, whether that array is the caller's object, and the pixel
  rectangle \<open>(xoff, yoff, width, height)\<close>.
\<close>

definition write_prepare ::
  "env \<Rightarrow> dataset \<Rightarrow> pixel ndarray \<Rightarrow> index_arg option \<Rightarrow> window option
     \<Rightarrow> py_error + (int list \<times> dtype \<times> pixel ndarray \<times> bool \<times> (int \<times> int \<times> int \<times> int))" where
  "write_prepare e ds src indexes' window =
     (if \<not> hds_open ds then Inl (ValueError ''can't write to closed raster file'')
      else
     (case write_source ds src indexes' of
        Inl err \<Rightarrow> Inl err
      | Inr (idx, src1, aliased) \<Rightarrow>
     (case write_check_indexes ds idx of
        Inl err \<Rightarrow> Inl err
      | Inr check_dtypes \<Rightarrow>
     (case common_dtype ds check_dtypes of
        Inl err \<Rightarrow> Inl err
      | Inr dtype' \<Rightarrow>
          if adtype src1 \<noteq> dtype'
          then Inl (ValueError ''the array's dtype does not match the file's dtype'')
          else
            (case np_require_C src1 of
               (src2, same) \<Rightarrow>
                 (case io_window e ds window of
                    Inl err \<Rightarrow> Inl err
                  | Inr rect \<Rightarrow> Inr (idx, dtype', src2, aliased \<and> same, rect)))))))"

text \<open>
  \<open>DatasetWriterBase.write\<close>; the name \<open>write\<close> alone is a keyword of Isabelle.
\<close>

definition writer_write ::
  "env \<Rightarrow> dataset \<Rightarrow> pixel ndarray \<Rightarrow> index_arg option \<Rightarrow> window option
     \<Rightarrow> unit traced \<times> pixel ndarray" where
  "writer_write e ds src indexes' window =
     (case write_prepare e ds src indexes' window of
        Inl err \<Rightarrow> ((Inl err, []), src)
      | Inr (idx, dtype', src2, aliased, (xoff, yoff, width', height')) \<Rightarrow>
          (case io_dispatch e (dtype_rev dtype') ds 1 xoff yoff width' height' src2 idx (length idx) of
             (Inl err, calls) \<Rightarrow> ((Inl err, calls), src)
           | (Inr (retval, src3), calls) \<Rightarrow>
               (((case check_retval retval of Some err \<Rightarrow> Inl err | None \<Rightarrow> Inr ()), calls),
                (if aliased then src3 else src))))"

subsection \<open>A small dataset to run the model on\<close>

text \<open>
  An instance of the absent helper \<open>windows.evaluate\<close> that hands the window back as
  it is, enough for windows that need no normalisation; fresh memory holding zeros;
  exact division and multiplication, which is what double precision gives wherever the
  exact result is a double (as for the scaling factor \<open>n / n = 1\<close> of a read without
  \<open>out\<close> and \<open>out_shape\<close>, and the products of integers with it); a native
  library that answers every transfer with success and the given memory.
\<close>

definition env_keep :: env where
  "env_keep =
     \<lparr>evaluate = (\<lambda>w h wd. Inr w), uninitialised = (\<lambda>p m. 0),
      float_quot = (\<lambda>a b. of_nat a / of_int b), float_prod = (\<lambda>n s. of_int n * s)\<rparr>"

definition sample_dataset :: "nat \<Rightarrow> dtype \<Rightarrow> rat option list \<Rightarrow> (int \<Rightarrow> nat) \<Rightarrow> (int \<Rightarrow> 8 word) \<Rightarrow> dataset" where
  "sample_dataset n dt ndvs flags band_mask =
     \<lparr>hds_open = True, height = 100, width = 100, count = n,
      indexes = map int [1 ..< Suc n], dtypes = replicate n dt, nodatavals = ndvs,
      get_mask_flags = flags, colorinterp = (\<lambda>j. OtherInterp),
      raster_band_null = (\<lambda>j. False), mask_band_null = (\<lambda>j. False),
      raster_io = (\<lambda>call. (0, (\<lambda>p m. 7))),
      mask_io = (\<lambda>call. (0, (\<lambda>m. band_mask (hd (nc_bandmap call)))))\<rparr>"

subsection \<open>Notions used in the statements\<close>

text \<open>The pixel rectangle \<open>(xoff, yoff, width, height)\<close> of a native call.\<close>

definition call_rect :: "native_call \<Rightarrow> int \<times> int \<times> int \<times> int" where
  "call_rect c = (nc_xoff c, nc_yoff c, nc_xsize c, nc_ysize c)"

text \<open>An array holding the same pixel everywhere.\<close>

definition const_array :: "shape \<Rightarrow> dtype \<Rightarrow> pixel \<Rightarrow> pixel ndarray" where
  "const_array s dt v = \<lparr>shape = s, adtype = dt, c_contiguous = True, cells = (\<lambda>b r c. v)\<rparr>"

text \<open>
  A window inside the dataset extent: every bound lies in \<open>[0, height]\<close>, for rows,
  and in \<open>[0, width]\<close>, for columns; the same for the rectangle of a native call; and
  the property of \<open>windows.evaluate\<close> that it leaves such a window inside the extent.
\<close>

definition within_extent :: "window \<Rightarrow> int \<Rightarrow> int \<Rightarrow> bool" where
  "within_extent w h wd =
     (case w of ((r0, r1), (c0, c1)) \<Rightarrow>
        0 \<le> r0 \<and> r0 \<le> h \<and> 0 \<le> r1 \<and> r1 \<le> h \<and> 0 \<le> c0 \<and> c0 \<le> wd \<and> 0 \<le> c1 \<and> c1 \<le> wd)"

definition rect_within :: "native_call \<Rightarrow> int \<Rightarrow> int \<Rightarrow> bool" where
  "rect_within c h wd =
     (0 \<le> nc_yoff c \<and> nc_yoff c \<le> h \<and> 0 \<le> nc_yoff c + nc_ysize c \<and> nc_yoff c + nc_ysize c \<le> h \<and>
      0 \<le> nc_xoff c \<and> nc_xoff c \<le> wd \<and> 0 \<le> nc_xoff c + nc_xsize c \<and> nc_xoff c + nc_xsize c \<le> wd)"

definition keeps_extent :: "env \<Rightarrow> int \<Rightarrow> int \<Rightarrow> bool" where
  "keeps_extent e h wd =
     (\<forall>w w'. within_extent w h wd \<longrightarrow> evaluate e w h wd = Inr w' \<longrightarrow> within_extent w' h wd)"

text \<open>The parts of what \<open>read\<close> returns.\<close>

fun result_mask :: "read_result \<Rightarrow> boolmask option" where
  "result_mask (Plain a) = None"
| "result_mask (Masked a m fv) = m"

fun result_fill_value :: "read_result \<Rightarrow> rat option" where
  "result_fill_value (Plain a) = None"
| "result_fill_value (Masked a m fv) = fv"

fun result_data :: "read_result \<Rightarrow> pixel ndarray" where
  "result_data (Plain a) = a"
| "result_data (Masked a m fv) = a"

fun is_masked_array :: "read_result \<Rightarrow> bool" where
  "is_masked_array (Plain a) = False"
| "is_masked_array (Masked a m fv) = True"

text \<open>
  The encoding and the nodata value that the index loop of \<open>read\<close> looks up for a band
  index (\<open>self.dtypes[idx]\<close> and \<open>self._nodatavals[idx]\<close> with
  \<open>idx = self.indexes.index(bidx)\<close>), and the nodata value after the clamp.
\<close>

definition band_dtype :: "dataset \<Rightarrow> int \<Rightarrow> dtype" where
  "band_dtype ds bidx = dtypes ds ! index_of (indexes ds) bidx"

definition band_nodataval :: "dataset \<Rightarrow> int \<Rightarrow> rat option" where
  "band_nodataval ds bidx = nodatavals ds ! index_of (indexes ds) bidx"

definition band_nodata :: "dataset \<Rightarrow> int \<Rightarrow> rat option" where
  "band_nodata ds bidx = clamp_nodata (band_dtype ds bidx) (band_nodataval ds bidx)"

text \<open>An array of two planes of one cell each.\<close>

definition two_planes :: "dtype \<Rightarrow> pixel \<Rightarrow> pixel \<Rightarrow> pixel ndarray" where
  "two_planes dt v0 v1 =
     \<lparr>shape = Shape3 2 1 1, adtype = dt, c_contiguous = True,
      cells = (\<lambda>b r c. if b = 0 then v0 else v1)\<rparr>"

section \<open>Properties\<close>

subsection \<open>The native calls of the transfer functions\<close>

lemma io_multi_real_Inl:
  "io_multi_real gdt hds mode xoff yoff w h buf idx n = (Inl err, calls) \<Longrightarrow> calls = []"
  by (auto simp: io_multi_real_def Let_def split: shape.splits prod.splits)

lemma io_multi_real_Inr:
  "io_multi_real gdt hds mode xoff yoff w h buf idx n = (Inr r, calls) \<Longrightarrow>
     \<exists>c. calls = [c] \<and> nc_target c = DatasetIO \<and> nc_mode c = mode \<and> call_rect c = (xoff, yoff, w, h)
         \<and> nc_gdt c = gdt \<and> nc_bandmap c = take n idx
         \<and> nc_mem c = (if mode = 0 then None else Some (flatten buf))"
  by (auto simp: io_multi_real_def call_rect_def Let_def split: shape.splits prod.splits)

lemma io_multi_complex_Inl:
  "io_multi_complex gdt tmp hds mode xoff yoff w h buf idx n = (Inl err, calls) \<Longrightarrow> calls = []"
  by (auto simp: io_multi_complex_def Let_def split: shape.splits prod.splits if_splits)

lemma io_multi_complex_Inr:
  "io_multi_complex gdt tmp hds mode xoff yoff w h buf idx n = (Inr r, calls) \<Longrightarrow>
     \<exists>c. calls = [c] \<and> nc_target c = DatasetIO \<and> nc_mode c = mode \<and> call_rect c = (xoff, yoff, w, h)
         \<and> nc_gdt c = gdt \<and> nc_bandmap c = take n idx
         \<and> nc_mem c = (if mode = 0 then None else Some tmp)"
  by (auto simp: io_multi_complex_def call_rect_def Let_def split: shape.splits prod.splits if_splits)

lemmas io_multi_defs = io_multi_ubyte_def io_multi_uint16_def io_multi_int16_def io_multi_uint32_def
  io_multi_int32_def io_multi_float32_def io_multi_float64_def io_multi_cint16_def io_multi_cint32_def
  io_multi_cfloat32_def io_multi_cfloat64_def

lemma io_dispatch_Inl:
  "io_dispatch e gdt hds mode xoff yoff w h buf idx n = (Inl err, calls) \<Longrightarrow> calls = []"
  by (auto simp: io_dispatch_def io_multi_defs split: if_splits
           dest: io_multi_real_Inl io_multi_complex_Inl)

lemma io_dispatch_Inr:
  assumes "io_dispatch e gdt hds mode xoff yoff w h buf idx n = (Inr r, calls)"
    and "1 \<le> gdt" and "gdt \<le> 11"
  shows "\<exists>c. calls = [c] \<and> nc_target c = DatasetIO \<and> nc_mode c = mode \<and> call_rect c = (xoff, yoff, w, h)
         \<and> nc_gdt c = gdt \<and> nc_bandmap c = take n idx"
proof -
  from assms(2,3) have "gdt = 1 \<or> gdt = 2 \<or> gdt = 3 \<or> gdt = 4 \<or> gdt = 5 \<or> gdt = 6 \<or> gdt = 7
      \<or> gdt = 8 \<or> gdt = 9 \<or> gdt = 10 \<or> gdt = 11"
    by arith
  then show ?thesis
    using assms(1)
    by (auto simp: io_dispatch_def io_multi_defs dest!: io_multi_real_Inr io_multi_complex_Inr)
qed

lemma dtype_rev_range: "1 \<le> dtype_rev dt \<and> dtype_rev dt \<le> 11"
  by (cases dt) simp_all

lemma io_multi_mask_loop_calls:
  "io_multi_mask_loop hds mode xoff yoff w h buf i js = (res, calls) \<Longrightarrow> c \<in> set calls \<Longrightarrow>
     nc_target c = MaskBandIO \<and> nc_mode c = mode \<and> call_rect c = (xoff, yoff, w, h)"
proof (induction js arbitrary: buf i res calls)
  case Nil
  then show ?case by simp
next
  case (Cons j js)
  then show ?case
    by (auto simp: Let_def call_rect_def split: if_splits prod.splits)
qed

lemma io_multi_mask_calls:
  "io_multi_mask hds mode xoff yoff w h buf idx n = (res, calls) \<Longrightarrow> c \<in> set calls \<Longrightarrow>
     nc_target c = MaskBandIO \<and> nc_mode c = mode \<and> call_rect c = (xoff, yoff, w, h)"
  by (auto simp: io_multi_mask_def split: shape.splits dest: io_multi_mask_loop_calls)

lemma u_read_Inr:
  "u_read e ds idx out window dt = (Inr a, calls) \<Longrightarrow>
     \<exists>c. calls = [c] \<and> io_window e ds window = Inr (call_rect c) \<and> nc_target c = DatasetIO
        \<and> nc_mode c = 0 \<and> nc_bandmap c = idx"
  using dtype_rev_range [of dt]
  by (fastforce simp: u_read_def split: if_splits sum.splits prod.splits option.splits
           dest!: io_dispatch_Inr)

lemma u_read_calls:
  "u_read e ds idx out window dt = (res, calls) \<Longrightarrow> c \<in> set calls \<Longrightarrow>
     io_window e ds window = Inr (call_rect c) \<and> nc_target c = DatasetIO"
  using dtype_rev_range [of dt]
  by (auto simp: u_read_def split: if_splits sum.splits prod.splits option.splits
           dest!: io_dispatch_Inr io_dispatch_Inl)

lemma u_read_masks_calls:
  "u_read_masks e ds idx out window = (res, calls) \<Longrightarrow> c \<in> set calls \<Longrightarrow>
     io_window e ds window = Inr (call_rect c) \<and> nc_target c = MaskBandIO"
  by (auto simp: u_read_masks_def split: if_splits sum.splits prod.splits option.splits
           dest: io_multi_mask_calls)

subsection \<open>The dataset mask\<close>

text \<open>Every mask transfer names one of the requested bands.\<close>

lemma io_multi_mask_loop_bands:
  "io_multi_mask_loop hds mode xoff yoff w h buf i js = (res, calls) \<Longrightarrow> c \<in> set calls \<Longrightarrow>
     \<exists>j. j \<in> set js \<and> nc_bandmap c = [j]"
proof (induction js arbitrary: buf i res calls)
  case Nil
  then show ?case by simp
next
  case (Cons j js)
  then show ?case
    by (fastforce simp: Let_def split: if_splits prod.splits)
qed

lemma u_read_masks_bands:
  "u_read_masks e ds idx out window = (res, calls) \<Longrightarrow> c \<in> set calls \<Longrightarrow>
     \<exists>j. j \<in> set idx \<and> nc_bandmap c = [j]"
  by (auto simp: u_read_masks_def io_multi_mask_def
           split: if_splits sum.splits prod.splits option.splits shape.splits
           dest!: io_multi_mask_loop_bands)

lemma masks_boundless_bands:
  "masks_boundless e ds idx out w ws = (res, calls) \<Longrightarrow> c \<in> set calls \<Longrightarrow>
     \<exists>j. j \<in> set idx \<and> nc_bandmap c = [j]"
  by (auto simp: masks_boundless_def masks_overlap_def Let_def
           split: if_splits sum.splits prod.splits
           dest!: u_read_masks_bands)

lemma read_masks_band:
  assumes "read_masks e ds (Some (IndexInt i)) out out_shape window boundless = (res, calls)"
    and "c \<in> set calls"
  shows "nc_bandmap c = [i]"
  using assms
  by (auto simp: read_masks_def resolve_indexes_def Let_def
           split: sum.splits prod.splits option.splits if_splits
           dest!: u_read_masks_bands masks_boundless_bands)

lemma dataset_mask_loop_bands:
  "dataset_mask_loop e ds window boundless msk is = (res, calls) \<Longrightarrow> c \<in> set calls \<Longrightarrow>
     \<exists>i. i \<in> set is \<and> nc_bandmap c = [int i]"
proof (induction "is" arbitrary: msk res calls)
  case Nil
  then show ?case by simp
next
  case (Cons i rest)
  then show ?case
    by (fastforce split: sum.splits prod.splits dest: read_masks_band)
qed

text \<open>
  In its third branch \<open>dataset_mask\<close> reads the masks of the bands 1, 1, 2, and so on
  up to \<open>count - 1\<close>: on a dataset of two or more bands no mask transfer ever names
  the last band.
\<close>

lemma dataset_mask_never_reads_last_band:
  assumes "dataset_mask e ds window boundless = (res, calls)"
    and "mask_flags ds = flags0 # rest"
    and "flags0 AND MaskFlags_per_dataset = 0"
    and "\<not> (count ds = 4 \<and> colorinterp ds 1 = Red)"
    and "2 \<le> count ds"
    and "c \<in> set calls"
  shows "\<exists>i. nc_bandmap c = [int i] \<and> 1 \<le> i \<and> i < count ds"
proof -
  from assms(1-4) have
    "(\<exists>r. read_masks e ds (Some (IndexInt 1)) None None window boundless = (r, calls))
     \<or> (\<exists>m calls1 calls2 r.
           read_masks e ds (Some (IndexInt 1)) None None window boundless = (Inr m, calls1)
         \<and> dataset_mask_loop e ds window boundless m [1 ..< count ds] = (r, calls2)
         \<and> calls = calls1 @ calls2)"
    by (auto simp: dataset_mask_def split: sum.splits prod.splits)
  then show ?thesis
  proof
    assume "\<exists>r. read_masks e ds (Some (IndexInt 1)) None None window boundless = (r, calls)"
    with assms(6) have "nc_bandmap c = [1]" by (auto dest: read_masks_band)
    with assms(5) show ?thesis by (intro exI [of _ 1]) simp
  next
    assume "\<exists>m calls1 calls2 r.
           read_masks e ds (Some (IndexInt 1)) None None window boundless = (Inr m, calls1)
         \<and> dataset_mask_loop e ds window boundless m [1 ..< count ds] = (r, calls2)
         \<and> calls = calls1 @ calls2"
    then obtain m calls1 calls2 r where
      1: "read_masks e ds (Some (IndexInt 1)) None None window boundless = (Inr m, calls1)"
      and 2: "dataset_mask_loop e ds window boundless m [1 ..< count ds] = (r, calls2)"
      and 3: "calls = calls1 @ calls2"
      by blast
    from assms(6) 3 consider "c \<in> set calls1" | "c \<in> set calls2" by auto
    then show ?thesis
    proof cases
      case 1
      with \<open>read_masks e ds (Some (IndexInt 1)) None None window boundless = (Inr m, calls1)\<close>
      have "nc_bandmap c = [1]" by (auto dest: read_masks_band)
      with assms(5) show ?thesis by (intro exI [of _ 1]) simp
    next
      case 2
      with dataset_mask_loop_bands [OF \<open>dataset_mask_loop e ds window boundless m [1 ..< count ds] = (r, calls2)\<close>]
      show ?thesis by auto
    qed
  qed
qed

text \<open>
  Claim C1. When neither the per-dataset flag of band 1 nor the four-band RGBA rule
  applies, \<open>dataset_mask\<close> should return the bitwise OR of \<open>read_masks(i)\<close> over every
  band \<open>i\<close> of the dataset. The loop runs over \<open>range(1, self.count)\<close> after band 1
  was read once already, so band 1 is read twice and the last band never. On a dataset
  of two bands whose first band is invalid everywhere (mask byte 0) and whose second
  band is valid everywhere (mask byte 255), with the nodata flag 8 on both bands, the
  dataset mask is 0 at pixel \<open>(0, 0)\<close> although \<open>read_masks(2)\<close> has 255 there, and
  the two mask transfers made both name band 1.
\<close>

theorem dataset_mask_skips_last_band:
  "(case fst (dataset_mask env_keep
               (sample_dataset 2 UInt8 [Some 0, Some 0] (\<lambda>j. 8) (\<lambda>j. if j = 2 then 255 else 0))
               None False) of
      Inr m \<Rightarrow> cells m 0 0 0 | Inl err \<Rightarrow> 255) = 0
   \<and> (case fst (read_masks env_keep
               (sample_dataset 2 UInt8 [Some 0, Some 0] (\<lambda>j. 8) (\<lambda>j. if j = 2 then 255 else 0))
               (Some (IndexInt 2)) None None None False) of
      Inr m \<Rightarrow> cells m 0 0 0 | Inl err \<Rightarrow> 0) = 255
   \<and> map nc_bandmap (snd (dataset_mask env_keep
               (sample_dataset 2 UInt8 [Some 0, Some 0] (\<lambda>j. 8) (\<lambda>j. if j = 2 then 255 else 0))
               None False)) = [[1], [1]]"
  by code_simp

subsection \<open>What \<open>read\<close> prepares\<close>

lemma read_prepare_Inl:
  "read_prepare e ds indexes' out window masked out_shape boundless = Inl err \<Longrightarrow>
     read e ds indexes' out window masked out_shape boundless = (Inl err, [])"
  by (simp add: read_def)

lemma read_calls_plan:
  "read e ds indexes' out window masked out_shape boundless = (res, calls) \<Longrightarrow> calls \<noteq> [] \<Longrightarrow>
     \<exists>p. read_prepare e ds indexes' out window masked out_shape boundless = Inr p"
  by (auto simp: read_def split: sum.splits)

lemma read_Inr_plan:
  "read e ds indexes' out window masked out_shape boundless = (Inr res, calls) \<Longrightarrow>
     \<exists>p. read_prepare e ds indexes' out window masked out_shape boundless = Inr p"
  by (auto simp: read_def split: sum.splits)

lemma read_prepare_indexes:
  "read_prepare e ds indexes' out window masked out_shape boundless = Inr p \<Longrightarrow>
     \<exists>out1. resolve_indexes ds indexes' out = Inr (rp_indexes p, rp_return2d p, out1)"
  by (auto simp: read_prepare_def split: sum.splits prod.splits option.splits if_splits)

lemma read_prepare_nodatavals:
  "read_prepare e ds indexes' out window masked out_shape boundless = Inr p \<Longrightarrow>
     \<exists>dts. read_check_indexes ds (rp_indexes p) = Inr (dts, rp_nodatavals p)
          \<and> common_dtype ds dts = Inr (rp_dtype p)"
  by (auto simp: read_prepare_def split: sum.splits prod.splits option.splits if_splits)

lemma read_prepare_window:
  "read_prepare e ds indexes' out window masked out_shape boundless = Inr p \<Longrightarrow>
     read_win_shape e ds (rp_indexes p) window boundless = Inr (rp_win_shape p, rp_window p)"
  by (auto simp: read_prepare_def split: sum.splits prod.splits option.splits if_splits)

lemma read_prepare_all_valid:
  "read_prepare e ds indexes' out window True out_shape boundless = Inr p \<Longrightarrow>
     read_all_valid ds = Inr (rp_all_valid p)"
  by (auto simp: read_prepare_def split: sum.splits prod.splits option.splits if_splits)

lemma read_prepare_out_fresh:
  "read_prepare e ds indexes' None window masked None boundless = Inr p \<Longrightarrow>
     \<exists>s. np_shape3 (rp_win_shape p) = Inr s
        \<and> rp_out p = np_zeros_filled (rp_dtype p) s (rp_nodatavals p)"
  by (auto simp: read_prepare_def resolve_indexes_def read_out_def Let_def
           split: sum.splits prod.splits option.splits if_splits index_arg.splits)


subsection \<open>The rectangle of a windowed transfer\<close>

lemma read_direct_calls:
  "read_direct e ds idx out window dt masked av ndvs = (res, calls) \<Longrightarrow> c \<in> set calls \<Longrightarrow>
     io_window e ds window = Inr (call_rect c)"
  by (auto simp: read_direct_def split: sum.splits prod.splits if_splits
           dest: u_read_calls u_read_masks_calls)

lemma crop_within:
  "0 \<le> h \<Longrightarrow> 0 \<le> wd \<Longrightarrow> within_extent (crop w h wd) h wd"
  by (auto simp: crop_def clip_window_def within_extent_def split: prod.splits)

lemma c_int_Inr:
  "c_int v = Inr x \<Longrightarrow> x = v \<and> - 2147483648 \<le> v \<and> v \<le> 2147483647"
  by (simp add: c_int_def split: if_splits)

lemma c_int_sub_exact:
  "- 2147483648 \<le> a - b \<Longrightarrow> a - b \<le> 2147483647 \<Longrightarrow> c_int_sub a b = a - b"
  by (simp add: c_int_sub_def)

lemma io_window_within:
  assumes "keeps_extent e (height ds) (width ds)"
    and "within_extent w (height ds) (width ds)"
    and "io_window e ds (Some w) = Inr (call_rect c)"
  shows "rect_within c (height ds) (width ds)"
proof -
  from assms(3) obtain r0 r1 c0 c1 where
    ev: "evaluate e w (height ds) (width ds) = Inr ((r0, r1), (c0, c1))"
    and fits: "c_int r0 = Inr r0" "c_int c0 = Inr c0" "c_int r1 = Inr r1" "c_int c1 = Inr c1"
    and rect: "call_rect c = (c0, r0, c_int_sub c1 c0, c_int_sub r1 r0)"
    by (auto simp: io_window_def dest!: c_int_Inr split: sum.splits prod.splits)
  from assms(1,2) ev have within: "within_extent ((r0, r1), (c0, c1)) (height ds) (width ds)"
    unfolding keeps_extent_def by blast
  from fits within have "c_int_sub c1 c0 = c1 - c0" "c_int_sub r1 r0 = r1 - r0"
    by (auto simp: within_extent_def dest!: c_int_Inr intro!: c_int_sub_exact)
  with rect within show ?thesis
    by (simp add: within_extent_def rect_within_def call_rect_def)
qed

text \<open>
  Claim C3, as amended. For every non-boundless read that carries a window, the pixel
  rectangle of every native transfer lies within \<open>[0, height]\<close> by \<open>[0, width]\<close>:
  \<open>read\<close> crops the evaluated window and \<open>_read\<close> evaluates the cropped window
  once more, so this needs \<open>windows.evaluate\<close> to leave a window inside the extent
  there, and a dataset of non-negative size. (The write path does not crop: see the
  counterexample below.)
\<close>

theorem read_rectangle_clipped:
  assumes "0 \<le> height ds" and "0 \<le> width ds"
    and "keeps_extent e (height ds) (width ds)"
    and "read e ds indexes' out (Some w) masked out_shape False = (res, calls)"
    and "c \<in> set calls"
  shows "rect_within c (height ds) (width ds)"
proof -
  from assms(4,5) obtain p where
    p: "read_prepare e ds indexes' out (Some w) masked out_shape False = Inr p"
    using read_calls_plan by fastforce
  from read_prepare_window [OF p] obtain w' where
    ev: "evaluate e w (height ds) (width ds) = Inr w'"
    and win: "rp_window p = Some (crop w' (height ds) (width ds))"
    by (auto simp: read_win_shape_def split: sum.splits prod.splits)
  from assms(4) p win obtain res' where
    "read_direct e ds (rp_indexes p) (rp_out p) (Some (crop w' (height ds) (width ds)))
        (rp_dtype p) masked (rp_all_valid p) (rp_nodatavals p) = (res', calls)"
    by (auto simp: read_def split: sum.splits prod.splits)
  from read_direct_calls [OF this assms(5)]
  have "io_window e ds (Some (crop w' (height ds) (width ds))) = Inr (call_rect c)" .
  with io_window_within [OF assms(3) crop_within [OF assms(1,2)]] show ?thesis
    by blast
qed

text \<open>
  The theorem at work: the window rows 50 to 200, columns 0 to 30 on a dataset of 100
  by 100 pixels is transferred as rows 50 to 100, columns 0 to 30.
\<close>

theorem read_rectangle_clipped_witness:
  "0 \<le> height (sample_dataset 1 UInt8 [None] (\<lambda>j. 1) (\<lambda>j. 255))
   \<and> keeps_extent env_keep 100 100
   \<and> map call_rect (snd (read env_keep (sample_dataset 1 UInt8 [None] (\<lambda>j. 1) (\<lambda>j. 255)) None None
          (Some ((50, 200), (0, 30))) False None False)) = [(0, 50, 30, 50)]
   \<and> list_all (\<lambda>c. rect_within c 100 100)
        (snd (read env_keep (sample_dataset 1 UInt8 [None] (\<lambda>j. 1) (\<lambda>j. 255)) None None
          (Some ((50, 200), (0, 30))) False None False))"
proof -
  let ?ds = "sample_dataset 1 UInt8 [None] (\<lambda>j. 1) (\<lambda>j. 255)"
  let ?r = "read env_keep ?ds None None (Some ((50, 200), (0, 30))) False None False"
  have h: "height ?ds = 100" and w: "width ?ds = 100"
    by (simp_all add: sample_dataset_def)
  have k: "keeps_extent env_keep 100 100"
    by (simp add: keeps_extent_def env_keep_def)
  have calls: "map call_rect (snd ?r) = [(0, 50, 30, 50)]"
    by code_simp
  have "\<forall>c \<in> set (snd ?r). rect_within c 100 100"
    using read_rectangle_clipped [of ?ds env_keep None None "((50, 200), (0, 30))" False None "fst ?r" "snd ?r"]
      h w k by simp
  then show ?thesis
    using h k calls by (simp add: list_all_iff)
qed

text \<open>
  Claim C3 as stated fails on the write path: \<open>write\<close> hands the evaluated window to
  the native transfer as it is. Writing with the window rows 0 to 200, columns 0 to 200
  to a dataset of 100 by 100 pixels asks the library for a rectangle of 200 by 200.
\<close>

theorem write_rectangle_not_clipped:
  "\<not> list_all (\<lambda>c. rect_within c 100 100)
       (snd (fst (writer_write env_keep (sample_dataset 1 UInt8 [None] (\<lambda>j. 1) (\<lambda>j. 255))
          (const_array (Shape3 1 200 200) UInt8 (PReal 1)) None (Some ((0, 200), (0, 200))))))"
  by code_simp


subsection \<open>The shape of a caller-supplied buffer\<close>

lemma read_win_shape_planes:
  "read_win_shape e ds idx window boundless = Inr (ws, w') \<Longrightarrow> fst ws = int (length idx)"
  by (auto simp: read_win_shape_def split: option.splits if_splits sum.splits prod.splits)

text \<open>
  Claim C8, as amended. A caller-supplied \<open>out\<close> whose first dimension (the number of
  planes, after a two-dimensional buffer given with a scalar index was reshaped) differs
  from the number of requested bands is rejected with an error before any native
  transfer. Rows and columns are not compared with the window.
\<close>

theorem read_rejects_plane_count_mismatch:
  assumes "resolve_indexes ds indexes' (Some out) = Inr (idx, return2d, Some out1)"
    and "shape0 (shape out1) \<noteq> length idx"
  shows "\<exists>err. read e ds indexes' (Some out) window masked out_shape boundless = (Inl err, [])"
proof -
  have "\<exists>err. read_prepare e ds indexes' (Some out) window masked out_shape boundless = Inl err"
    using assms
    by (auto simp: read_prepare_def read_out_def Let_def dest!: read_win_shape_planes
             split: sum.splits prod.splits option.splits)
  then show ?thesis
    by (auto dest: read_prepare_Inl)
qed

text \<open>A buffer of two planes for a read of one band is rejected.\<close>

theorem read_rejects_plane_count_mismatch_witness:
  "resolve_indexes (sample_dataset 1 UInt8 [None] (\<lambda>j. 1) (\<lambda>j. 255)) None
       (Some (const_array (Shape3 2 100 100) UInt8 (PReal 0)))
     = Inr ([1], False, Some (const_array (Shape3 2 100 100) UInt8 (PReal 0)))
   \<and> shape0 (shape (const_array (Shape3 2 100 100) UInt8 (PReal 0))) \<noteq> length [1::int]
   \<and> (\<exists>err. read env_keep (sample_dataset 1 UInt8 [None] (\<lambda>j. 1) (\<lambda>j. 255)) None
          (Some (const_array (Shape3 2 100 100) UInt8 (PReal 0))) None False None False = (Inl err, []))"
proof -
  let ?ds = "sample_dataset 1 UInt8 [None] (\<lambda>j. 1) (\<lambda>j. 255)"
  let ?out = "const_array (Shape3 2 100 100) UInt8 (PReal 0)"
  have r: "resolve_indexes ?ds None (Some ?out) = Inr ([1], False, Some ?out)"
    by (simp add: resolve_indexes_def sample_dataset_def)
  have n: "shape0 (shape ?out) \<noteq> length [1::int]"
    by (simp add: const_array_def)
  from read_rejects_plane_count_mismatch [OF r n] r n show ?thesis
    by blast
qed

text \<open>
  Claim C8 as stated fails: a buffer of one plane of 50 by 50 cells for a read of the
  whole dataset of 100 by 100 pixels is not rejected; the read succeeds with one native
  transfer of the full rectangle into the 50 by 50 buffer (a decimated read).
\<close>

theorem read_accepts_row_col_mismatch:
  "\<not> isl (fst (read env_keep (sample_dataset 1 UInt8 [None] (\<lambda>j. 1) (\<lambda>j. 255)) None
          (Some (const_array (Shape3 1 50 50) UInt8 (PReal 0))) None False None False))
   \<and> map (\<lambda>c. (call_rect c, nc_buf_ysize c, nc_buf_xsize c))
        (snd (read env_keep (sample_dataset 1 UInt8 [None] (\<lambda>j. 1) (\<lambda>j. 255)) None
          (Some (const_array (Shape3 1 50 50) UInt8 (PReal 0))) None False None False))
      = [((0, 0, 100, 100), 50, 50)]"
  by code_simp


subsection \<open>Masked reads\<close>

lemma read_direct_branch:
  assumes "read_prepare e ds indexes' out window masked out_shape boundless = Inr p"
    and "window = None \<or> \<not> boundless"
  shows "read e ds indexes' out window masked out_shape boundless =
     (case read_direct e ds (rp_indexes p) (rp_out p) (rp_window p) (rp_dtype p) masked
              (rp_all_valid p) (rp_nodatavals p) of
        (Inl err, calls) \<Rightarrow> (Inl err, calls)
      | (Inr res, calls) \<Rightarrow> (Inr (if rp_return2d p then squeeze res else res), calls))"
proof -
  from read_prepare_window [OF assms(1)] assms(2)
  have "rp_window p = None \<or> \<not> boundless"
    by (auto simp: read_win_shape_def split: option.splits)
  with assms(1) show ?thesis
    by (auto simp: read_def split: option.splits)
qed

lemma read_direct_all_valid:
  "read_direct e ds idx out window dt True True ndvs = (Inr res, calls) \<Longrightarrow>
     \<exists>a c. res = Masked a None (fill_value_kwd ndvs) \<and> calls = [c] \<and> nc_target c = DatasetIO"
  by (auto simp: read_direct_def split: sum.splits prod.splits dest!: u_read_Inr)

lemma read_direct_not_all_valid:
  "read_direct e ds idx out window dt True False ndvs = (Inr res, calls) \<Longrightarrow>
     \<exists>a m c mask_calls. res = Masked a (Some (invert_mask m)) (fill_value_kwd ndvs)
        \<and> u_read_masks e ds idx (np_empty_uint8 e (shape a)) window = (Inr m, mask_calls)
        \<and> calls = c # mask_calls \<and> nc_target c = DatasetIO"
  by (auto simp: read_direct_def split: sum.splits prod.splits dest!: u_read_Inr)

text \<open>
  What \<open>all_valid\<close> stands for: every band of the dataset, in the order of
  \<open>self.indexes\<close>, resolves to a band object and has the all-valid bit in its flags.
\<close>

lemma read_mask_flags_Inr:
  "read_mask_flags ds js = Inr flags \<Longrightarrow>
     (\<forall>j \<in> set js. \<not> raster_band_null ds j) \<and> flags = map (get_mask_flags ds) js"
  by (induction js arbitrary: flags) (auto simp: band_def split: sum.splits if_splits)

lemma read_mask_flags_resolved:
  "\<forall>j \<in> set js. \<not> raster_band_null ds j \<Longrightarrow>
     read_mask_flags ds js = Inr (map (get_mask_flags ds) js)"
  by (induction js) (auto simp: band_def)

lemma replicate_zero_flags:
  "list_all (\<lambda>flag :: nat. flag AND 1 = 1) (replicate k 0) \<longleftrightarrow> k = 0"
  by (cases k) simp_all

lemma read_all_valid_iff:
  "read_all_valid ds = Inr True \<longleftrightarrow>
     count ds \<le> length (indexes ds)
     \<and> (\<forall>j \<in> set (take (count ds) (indexes ds)).
            \<not> raster_band_null ds j \<and> get_mask_flags ds j AND 1 = 1)"
proof -
  let ?js = "take (count ds) (indexes ds)"
  have len: "count ds - length ?js = 0 \<longleftrightarrow> count ds \<le> length (indexes ds)"
    by auto
  show ?thesis
  proof (cases "read_mask_flags ds ?js")
    case (Inl err)
    then have "\<not> (\<forall>j \<in> set ?js. \<not> raster_band_null ds j)"
      using read_mask_flags_resolved [of ?js ds] by auto
    with Inl show ?thesis by (auto simp: read_all_valid_def)
  next
    case (Inr flags)
    then have f: "flags = map (get_mask_flags ds) ?js"
      and b: "\<forall>j \<in> set ?js. \<not> raster_band_null ds j"
      using read_mask_flags_Inr [of ds ?js flags] by auto
    have "read_all_valid ds = Inr True \<longleftrightarrow>
            list_all (\<lambda>flag. flag AND 1 = 1) flags
            \<and> list_all (\<lambda>flag :: nat. flag AND 1 = 1) (replicate (count ds - length ?js) 0)"
      using Inr by (simp add: read_all_valid_def Let_def)
    also have "\<dots> \<longleftrightarrow> (\<forall>j \<in> set ?js. get_mask_flags ds j AND 1 = 1)
                       \<and> count ds \<le> length (indexes ds)"
      unfolding replicate_zero_flags len f by (simp add: list_all_iff)
    finally show ?thesis using b by auto
  qed
qed

text \<open>
  Claim C6, as amended. For every read with \<open>masked=True\<close> that takes the direct branch
  (no window, or \<open>boundless\<close> not set) and succeeds: if every band of the dataset,
  requested or not, reports all pixels valid, the result is a masked array without a
  mask and the only native call is the data transfer; otherwise the calls are the data
  transfer followed by those of the mask read path on the same indexes and window, and
  the mask of the result is cell by cell the inverse of the validity bytes fetched there
  (masked where the byte is 0).
\<close>

theorem masked_direct_read:
  assumes "read e ds indexes' out window True out_shape boundless = (Inr res, calls)"
    and "window = None \<or> \<not> boundless"
  shows "if read_all_valid ds = Inr True
         then is_masked_array res \<and> result_mask res = None
              \<and> (\<exists>c. calls = [c] \<and> nc_target c = DatasetIO)
         else (\<exists>p buf m mk c mask_calls.
                 read_prepare e ds indexes' out window True out_shape boundless = Inr p
               \<and> u_read_masks e ds (rp_indexes p) buf (rp_window p) = (Inr m, mask_calls)
               \<and> calls = c # mask_calls \<and> nc_target c = DatasetIO
               \<and> result_mask res = Some mk
               \<and> (\<forall>b r c. bcells mk b r c = (cells m b r c = 0)))"
proof -
  from read_Inr_plan [OF assms(1)] obtain p where
    p: "read_prepare e ds indexes' out window True out_shape boundless = Inr p" by blast
  have av: "read_all_valid ds = Inr (rp_all_valid p)"
    by (rule read_prepare_all_valid [OF p])
  from assms(1) read_direct_branch [OF p assms(2)] obtain res' where
    d: "read_direct e ds (rp_indexes p) (rp_out p) (rp_window p) (rp_dtype p) True
          (rp_all_valid p) (rp_nodatavals p) = (Inr res', calls)"
    and res: "res = (if rp_return2d p then squeeze res' else res')"
    by (auto split: sum.splits prod.splits)
  show ?thesis
  proof (cases "rp_all_valid p")
    case True
    with d obtain a c where "res' = Masked a None (fill_value_kwd (rp_nodatavals p))"
      and "calls = [c]" and "nc_target c = DatasetIO"
      by (auto dest!: read_direct_all_valid)
    with res av True show ?thesis by auto
  next
    case False
    with d obtain a m c mask_calls where
      r': "res' = Masked a (Some (invert_mask m)) (fill_value_kwd (rp_nodatavals p))"
      and m: "u_read_masks e ds (rp_indexes p) (np_empty_uint8 e (shape a)) (rp_window p) = (Inr m, mask_calls)"
      and c: "calls = c # mask_calls" "nc_target c = DatasetIO"
      by (auto dest!: read_direct_not_all_valid)
    from res r' obtain mk where
      mk: "result_mask res = Some mk" "\<forall>b r c. bcells mk b r c = (cells m b r c = 0)"
      by (cases "rp_return2d p") (auto simp: invert_mask_def)
    with p m c av False show ?thesis by auto
  qed
qed


text \<open>
  Both cases at work on a dataset of one band: with the all-valid flag the read makes
  one call, of the dataset; with the nodata flag the data transfer is followed by the
  mask transfer.
\<close>

theorem masked_direct_read_witness:
  "read_all_valid (sample_dataset 1 UInt8 [None] (\<lambda>j. 1) (\<lambda>j. 255)) = Inr True
   \<and> \<not> isl (fst (read env_keep (sample_dataset 1 UInt8 [None] (\<lambda>j. 1) (\<lambda>j. 255))
                  None None None True None False))
   \<and> (\<exists>c. snd (read env_keep (sample_dataset 1 UInt8 [None] (\<lambda>j. 1) (\<lambda>j. 255))
                  None None None True None False) = [c] \<and> nc_target c = DatasetIO)
   \<and> read_all_valid (sample_dataset 1 UInt8 [Some 0] (\<lambda>j. 8) (\<lambda>j. 255)) = Inr False
   \<and> \<not> isl (fst (read env_keep (sample_dataset 1 UInt8 [Some 0] (\<lambda>j. 8) (\<lambda>j. 255))
                  None None None True None False))
   \<and> (\<exists>c mask_calls. snd (read env_keep (sample_dataset 1 UInt8 [Some 0] (\<lambda>j. 8) (\<lambda>j. 255))
                  None None None True None False) = c # mask_calls \<and> nc_target c = DatasetIO)"
proof -
  let ?v = "sample_dataset 1 UInt8 [None] (\<lambda>j. 1) (\<lambda>j. 255)"
  let ?n = "sample_dataset 1 UInt8 [Some 0] (\<lambda>j. 8) (\<lambda>j. 255)"
  let ?rv = "read env_keep ?v None None None True None False"
  let ?rn = "read env_keep ?n None None None True None False"
  have av: "read_all_valid ?v = Inr True" by code_simp
  have an: "read_all_valid ?n = Inr False" by code_simp
  have ov: "\<not> isl (fst ?rv)" by code_simp
  have on: "\<not> isl (fst ?rn)" by code_simp
  from ov have ev: "?rv = (Inr (projr (fst ?rv)), snd ?rv)"
    by (metis prod.collapse sum.collapse(2))
  from on have en: "?rn = (Inr (projr (fst ?rn)), snd ?rn)"
    by (metis prod.collapse sum.collapse(2))
  from masked_direct_read [OF ev] av
  have 1: "\<exists>c. snd ?rv = [c] \<and> nc_target c = DatasetIO" by simp
  from masked_direct_read [OF en] an
  have 2: "\<exists>c mask_calls. snd ?rn = c # mask_calls \<and> nc_target c = DatasetIO" by auto
  from av an ov on 1 2 show ?thesis by blast
qed

text \<open>
  Claim C6 as stated fails twice. The flags examined are those of all bands of the
  dataset: reading band 1, which is all valid, of a dataset whose band 2 is not, makes
  the mask transfer and returns a mask. And the boundless branch never looks at the
  flags: a boundless read of the window rows -10 to 50, columns -10 to 50 of an
  all-valid dataset makes the mask transfer and returns a mask that is set outside the
  dataset (cell \<open>(0, 0)\<close>) and clear inside (cell \<open>(10, 10)\<close>).
\<close>

theorem masked_read_unrequested_band_forces_mask:
  "get_mask_flags (sample_dataset 2 UInt8 [None, None] (\<lambda>j. if j = 1 then 1 else 8) (\<lambda>j. 255)) 1 AND 1 = 1
   \<and> map nc_target (snd (read env_keep
          (sample_dataset 2 UInt8 [None, None] (\<lambda>j. if j = 1 then 1 else 8) (\<lambda>j. 255))
          (Some (IndexList [1])) None None True None False)) = [DatasetIO, MaskBandIO]
   \<and> (case fst (read env_keep
          (sample_dataset 2 UInt8 [None, None] (\<lambda>j. if j = 1 then 1 else 8) (\<lambda>j. 255))
          (Some (IndexList [1])) None None True None False) of
        Inr res \<Rightarrow> result_mask res \<noteq> None | Inl err \<Rightarrow> False)
   \<and> read_all_valid (sample_dataset 1 UInt8 [None] (\<lambda>j. 1) (\<lambda>j. 255)) = Inr True
   \<and> map nc_target (snd (read env_keep (sample_dataset 1 UInt8 [None] (\<lambda>j. 1) (\<lambda>j. 255))
          None None (Some ((-10, 50), (-10, 50))) True None True)) = [DatasetIO, MaskBandIO]
   \<and> (case fst (read env_keep (sample_dataset 1 UInt8 [None] (\<lambda>j. 1) (\<lambda>j. 255))
          None None (Some ((-10, 50), (-10, 50))) True None True) of
        Inr res \<Rightarrow> map_option (\<lambda>mk. (bcells mk 0 0 0, bcells mk 0 10 10)) (result_mask res)
                   = Some (True, False)
      | Inl err \<Rightarrow> False)"
  by code_simp

subsection \<open>The fill value of a masked read\<close>

lemma read_check_indexes_maps:
  "read_check_indexes ds idx = Inr (dts, ndvs) \<Longrightarrow>
     dts = map (band_dtype ds) idx \<and> ndvs = map (band_nodata ds) idx"
proof (induction idx arbitrary: dts ndvs)
  case Nil
  then show ?case by simp
next
  case (Cons bidx rest)
  then show ?case
    by (auto simp: py_nth_def band_dtype_def band_nodata_def band_nodataval_def
             split: if_splits sum.splits prod.splits)
qed

lemma remdups_single:
  "xs \<noteq> [] \<Longrightarrow> length (remdups xs) = 1 \<longleftrightarrow> (\<forall>x \<in> set xs. x = hd xs)"
proof -
  assume ne: "xs \<noteq> []"
  have "length (remdups xs) = card (set xs)"
    by (simp add: length_remdups_card_conv)
  moreover have "card (set xs) = 1 \<longleftrightarrow> (\<forall>x \<in> set xs. x = hd xs)"
  proof
    assume "card (set xs) = 1"
    then obtain y where "set xs = {y}" by (auto simp: card_1_singleton_iff)
    moreover from ne have "hd xs \<in> set xs" by simp
    ultimately show "\<forall>x \<in> set xs. x = hd xs" by auto
  next
    assume "\<forall>x \<in> set xs. x = hd xs"
    with ne have "set xs = {hd xs}" by auto
    then show "card (set xs) = 1" by simp
  qed
  ultimately show ?thesis by simp
qed

lemma fill_value_kwd_iff:
  assumes "ndvs \<noteq> []"
  shows "fill_value_kwd ndvs = Some v \<longleftrightarrow> (\<forall>x \<in> set ndvs. x = Some v)"
proof -
  from assms obtain y ys where c: "ndvs = y # ys" by (cases ndvs) auto
  show ?thesis
    using remdups_single [OF assms] c
    by (auto simp: fill_value_kwd_def)
qed


lemma read_direct_masked:
  "read_direct e ds idx out window dt True av ndvs = (Inr res, calls) \<Longrightarrow>
     is_masked_array res \<and> result_fill_value res = fill_value_kwd ndvs"
  by (auto simp: read_direct_def split: sum.splits prod.splits if_splits)

lemma place_overlap_masked:
  "place_overlap out data (Some dm) roff coff data_h data_w ndvs = Inr res \<Longrightarrow>
     is_masked_array res \<and> result_fill_value res = fill_value_kwd ndvs"
  by (auto simp: place_overlap_def split: sum.splits)

lemma read_overlap_data_masked:
  "read_overlap_data e ds idx bs ov dt True = (Inr (data, dm), calls) \<Longrightarrow> dm \<noteq> None"
  by (auto simp: read_overlap_data_def split: sum.splits prod.splits)

lemma read_overlap_masked:
  "read_overlap e ds idx out w ov ws dt True ndvs = (Inr res, calls) \<Longrightarrow>
     is_masked_array res \<and> result_fill_value res = fill_value_kwd ndvs"
  by (auto simp: read_overlap_def Let_def split: sum.splits prod.splits
           dest!: read_overlap_data_masked place_overlap_masked)

lemma read_boundless_masked:
  "read_boundless e ds idx out w ws dt True ndvs = (Inr res, calls) \<Longrightarrow>
     is_masked_array res \<and> result_fill_value res = fill_value_kwd ndvs"
  by (auto simp: read_boundless_def Let_def split: if_splits dest!: read_overlap_masked)

lemma squeeze_keeps:
  "is_masked_array (squeeze res) = is_masked_array res"
  "result_fill_value (squeeze res) = result_fill_value res"
  "cells (result_data (squeeze res)) = cells (result_data res)"
  by (cases res; simp)+

lemma read_body:
  assumes "read e ds indexes' out window masked out_shape boundless = (Inr res, calls)"
    and "read_prepare e ds indexes' out window masked out_shape boundless = Inr p"
  shows "\<exists>res'. res = (if rp_return2d p then squeeze res' else res')
       \<and> (case rp_window p of
            None \<Rightarrow>
              read_direct e ds (rp_indexes p) (rp_out p) None (rp_dtype p) masked
                (rp_all_valid p) (rp_nodatavals p)
          | Some w \<Rightarrow>
              if \<not> boundless
              then read_direct e ds (rp_indexes p) (rp_out p) (Some w) (rp_dtype p) masked
                     (rp_all_valid p) (rp_nodatavals p)
              else read_boundless e ds (rp_indexes p) (rp_out p) w (rp_win_shape p)
                     (rp_dtype p) masked (rp_nodatavals p)) = (Inr res', calls)"
  using assms by (auto simp: read_def split: sum.splits prod.splits)

lemma read_masked_fill_value:
  assumes "read e ds indexes' out window True out_shape boundless = (Inr res, calls)"
    and "read_prepare e ds indexes' out window True out_shape boundless = Inr p"
  shows "is_masked_array res \<and> result_fill_value res = fill_value_kwd (rp_nodatavals p)"
proof -
  from read_body [OF assms] obtain res' where
    r: "res = (if rp_return2d p then squeeze res' else res')"
    and b: "(case rp_window p of
            None \<Rightarrow>
              read_direct e ds (rp_indexes p) (rp_out p) None (rp_dtype p) True
                (rp_all_valid p) (rp_nodatavals p)
          | Some w \<Rightarrow>
              if \<not> boundless
              then read_direct e ds (rp_indexes p) (rp_out p) (Some w) (rp_dtype p) True
                     (rp_all_valid p) (rp_nodatavals p)
              else read_boundless e ds (rp_indexes p) (rp_out p) w (rp_win_shape p)
                     (rp_dtype p) True (rp_nodatavals p)) = (Inr res', calls)"
    by blast
  from b have "is_masked_array res' \<and> result_fill_value res' = fill_value_kwd (rp_nodatavals p)"
    by (cases "rp_window p"; cases boundless)
       (auto dest: read_direct_masked read_boundless_masked)
  with r show ?thesis
    by (simp add: squeeze_keeps)
qed





subsection \<open>The nodata clamp\<close>

lemma common_dtype_all:
  assumes "common_dtype ds dts = Inr dt" and "dts \<noteq> []"
  shows "\<forall>d \<in> set dts. d = dt"
proof -
  from assms have l: "\<not> 1 < length (remdups dts)" and h: "hd dts = dt"
    by (auto simp: common_dtype_def split: if_splits list.splits)
  from assms(2) have "remdups dts \<noteq> []" by simp
  then have "0 < length (remdups dts)" by simp
  with l have "length (remdups dts) = 1" by linarith
  with remdups_single [OF assms(2)] h show ?thesis by simp
qed

lemma clamp_nodata_Some:
  "dtype_range dt = (lo, hi) \<Longrightarrow>
     clamp_nodata dt (Some v) = Some (if v < lo then lo else if hi < v then hi else v)"
  by (simp add: clamp_nodata_def)

lemma read_boundless_no_overlap:
  "overlap_window ds w = ((0, 0), (0, 0)) \<Longrightarrow>
     read_boundless e ds idx out w ws dt masked ndvs = (Inr res, calls) \<Longrightarrow>
     result_data res = out \<and> calls = []"
  by (auto simp: read_boundless_def split: if_splits)

text \<open>
  Claim C5. \<open>read\<close> clamps the nodata value of a requested band to the nearest bound
  of the band's encoding before it uses the value to fill. For every read that
  succeeds, and a requested band with the nodata value \<open>v\<close> and an encoding of the
  range \<open>lo\<close> to \<open>hi\<close>: the value \<open>read\<close> works with after its index loop is
  \<open>lo\<close> when \<open>v < lo\<close>, \<open>hi\<close> when \<open>hi < v\<close>, and \<open>v\<close> otherwise; the buffer
  that \<open>read\<close> allocates when the caller gives none is filled with that value, stored
  in the band's encoding, in the band's plane; that buffer is what a boundless read
  returns untouched when it finds no overlap; and the fill value of a masked result, if
  one is attached, is that value.
\<close>

theorem nodata_clamped_before_fill:
  assumes "read e ds indexes' out window masked out_shape boundless = (Inr res, calls)"
    and "resolve_indexes ds indexes' out = Inr (idx, return2d, out1)"
    and "b < length idx"
    and "band_nodataval ds (idx ! b) = Some v"
    and "dtype_range (band_dtype ds (idx ! b)) = (lo, hi)"
  shows "\<exists>p. read_prepare e ds indexes' out window masked out_shape boundless = Inr p
           \<and> rp_nodatavals p ! b = Some (if v < lo then lo else if hi < v then hi else v)
           \<and> (out = None \<and> out_shape = None \<longrightarrow>
                cells (rp_out p) b r c
                  = np_cast (band_dtype ds (idx ! b)) (if v < lo then lo else if hi < v then hi else v))
           \<and> (out = None \<and> out_shape = None \<and> boundless
                \<and> (\<exists>w. window = Some w \<and> overlap_window ds w = ((0, 0), (0, 0))) \<longrightarrow>
                cells (result_data res) b r c
                  = np_cast (band_dtype ds (idx ! b)) (if v < lo then lo else if hi < v then hi else v)
                \<and> calls = [])
           \<and> (masked \<longrightarrow>
                (\<forall>x. result_fill_value res = Some x \<longrightarrow>
                     x = (if v < lo then lo else if hi < v then hi else v)))"
proof -
  let ?v = "if v < lo then lo else if hi < v then hi else v"
  let ?dt = "band_dtype ds (idx ! b)"
  from read_Inr_plan [OF assms(1)] obtain p where
    p: "read_prepare e ds indexes' out window masked out_shape boundless = Inr p" by blast
  from read_prepare_indexes [OF p] assms(2) have idx: "rp_indexes p = idx" by auto
  from read_prepare_nodatavals [OF p] idx obtain dts where
    dts: "dts = map (band_dtype ds) idx" and ndvs: "rp_nodatavals p = map (band_nodata ds) idx"
    and cd: "common_dtype ds dts = Inr (rp_dtype p)"
    by (auto dest: read_check_indexes_maps)
  from assms(3) dts have "dts \<noteq> []" and "?dt \<in> set dts" by auto
  with common_dtype_all [OF cd] have dt: "rp_dtype p = ?dt" by auto
  have nd: "band_nodata ds (idx ! b) = Some ?v"
    using assms(4,5) by (simp add: band_nodata_def clamp_nodata_Some)
  with ndvs assms(3) have nth: "rp_nodatavals p ! b = Some ?v" by simp
  have fresh: "cells (rp_out p) b r c = np_cast ?dt ?v" if "out = None" "out_shape = None"
  proof -
    from p that have "read_prepare e ds indexes' None window masked None boundless = Inr p"
      by simp
    from read_prepare_out_fresh [OF this] obtain s where
      s: "np_shape3 (rp_win_shape p) = Inr s"
      and out: "rp_out p = np_zeros_filled (rp_dtype p) s (rp_nodatavals p)"
      by blast
    from read_prepare_window [OF p] idx have "fst (rp_win_shape p) = int (length idx)"
      by (auto dest: read_win_shape_planes)
    with s have "planes s = length idx"
      by (auto simp: np_shape3_def planes_def split: prod.splits if_splits)
    with out ndvs assms(3) nd dt show ?thesis
      by (simp add: np_zeros_filled_def)
  qed
  have untouched: "cells (result_data res) b r c = np_cast ?dt ?v \<and> calls = []"
    if "out = None" "out_shape = None" "boundless" "window = Some w"
      "overlap_window ds w = ((0, 0), (0, 0))" for w
  proof -
    from read_prepare_window [OF p] that(3,4) have win: "rp_window p = Some w"
      by (auto simp: read_win_shape_def split: prod.splits)
    from read_body [OF assms(1) p] win that(3) obtain res' where
      r: "res = (if rp_return2d p then squeeze res' else res')"
      and bl: "read_boundless e ds (rp_indexes p) (rp_out p) w (rp_win_shape p) (rp_dtype p) masked
                (rp_nodatavals p) = (Inr res', calls)"
      by auto
    from read_boundless_no_overlap [OF that(5) bl] have
      d: "result_data res' = rp_out p" and c: "calls = []" by simp_all
    from r d have "cells (result_data res) = cells (rp_out p)"
      by (simp add: squeeze_keeps)
    with fresh [OF that(1,2)] c show ?thesis by simp
  qed
  have fv: "x = ?v" if "masked" "result_fill_value res = Some x" for x
  proof -
    from assms(1) p that(1) have
      "read e ds indexes' out window True out_shape boundless = (Inr res, calls)"
      "read_prepare e ds indexes' out window True out_shape boundless = Inr p"
      by simp_all
    from read_masked_fill_value [OF this] that(2)
    have k: "fill_value_kwd (rp_nodatavals p) = Some x" by simp
    from assms(3) ndvs have ne: "rp_nodatavals p \<noteq> []" by auto
    from fill_value_kwd_iff [OF ne, of x] k have "\<forall>y \<in> set (rp_nodatavals p). y = Some x" by simp
    moreover from assms(3) ndvs have "rp_nodatavals p ! b \<in> set (rp_nodatavals p)" by simp
    ultimately show ?thesis using nth by auto
  qed
  have A: "out = None \<and> out_shape = None \<longrightarrow> cells (rp_out p) b r c = np_cast ?dt ?v"
    by (rule impI, elim conjE, rule fresh)
  have B: "out = None \<and> out_shape = None \<and> boundless
             \<and> (\<exists>w. window = Some w \<and> overlap_window ds w = ((0, 0), (0, 0))) \<longrightarrow>
           cells (result_data res) b r c = np_cast ?dt ?v \<and> calls = []"
    by (rule impI, elim conjE exE, rule untouched; assumption)
  have C: "masked \<longrightarrow> (\<forall>x. result_fill_value res = Some x \<longrightarrow> x = ?v)"
    by (intro impI allI, rule fv; assumption)
  from p nth A B C show ?thesis
    by (intro exI [of _ p] conjI)
qed

text \<open>
  The nodata value 300 of an unsigned 8-bit band is used as 255: in the buffer returned
  by a boundless read up and left of the dataset, and as the fill value of the masked
  result of that read.
\<close>

theorem nodata_clamped_before_fill_witness:
  "band_nodataval (sample_dataset 1 UInt8 [Some 300] (\<lambda>j. 8) (\<lambda>j. 255)) 1 = Some 300
   \<and> dtype_range (band_dtype (sample_dataset 1 UInt8 [Some 300] (\<lambda>j. 8) (\<lambda>j. 255)) 1) = (0, 255)
   \<and> overlap_window (sample_dataset 1 UInt8 [Some 300] (\<lambda>j. 8) (\<lambda>j. 255)) ((-10, -5), (-10, -5))
     = ((0, 0), (0, 0))
   \<and> \<not> isl (fst (read env_keep (sample_dataset 1 UInt8 [Some 300] (\<lambda>j. 8) (\<lambda>j. 255))
                  None None (Some ((-10, -5), (-10, -5))) True None True))
   \<and> cells (result_data (projr (fst (read env_keep
          (sample_dataset 1 UInt8 [Some 300] (\<lambda>j. 8) (\<lambda>j. 255))
          None None (Some ((-10, -5), (-10, -5))) True None True)))) 0 2 3 = PReal 255
   \<and> result_fill_value (projr (fst (read env_keep
          (sample_dataset 1 UInt8 [Some 300] (\<lambda>j. 8) (\<lambda>j. 255))
          None None (Some ((-10, -5), (-10, -5))) True None True))) = Some 255"
proof -
  let ?ds = "sample_dataset 1 UInt8 [Some 300] (\<lambda>j. 8) (\<lambda>j. 255)"
  let ?w = "((-10, -5), (-10, -5)) :: window"
  let ?r = "read env_keep ?ds None None (Some ?w) True None True"
  have o: "overlap_window ?ds ?w = ((0, 0), (0, 0))"
    by (simp add: overlap_window_def sample_dataset_def)
  have i: "resolve_indexes ?ds None (None :: pixel ndarray option) = Inr ([1], False, None)"
    by (simp add: resolve_indexes_def sample_dataset_def)
  have v: "band_nodataval ?ds ([1] ! 0) = Some 300"
    by (simp add: band_nodataval_def sample_dataset_def)
  have g: "dtype_range (band_dtype ?ds ([1] ! 0)) = (0, 255)"
    by (simp add: band_dtype_def sample_dataset_def)
  have ok: "\<not> isl (fst ?r)" by code_simp
  then have e: "?r = (Inr (projr (fst ?r)), snd ?r)"
    by (metis prod.collapse sum.collapse(2))
  have fvs: "result_fill_value (projr (fst ?r)) \<noteq> None" by code_simp
  from nodata_clamped_before_fill [OF e i _ v g, of 2 3] o
  have c: "cells (result_data (projr (fst ?r))) 0 2 3 = np_cast (band_dtype ?ds 1) 255"
    and f: "\<forall>x. result_fill_value (projr (fst ?r)) = Some x \<longrightarrow> x = 255"
    by auto
  have n: "np_cast (band_dtype ?ds 1) 255 = PReal 255"
    by (simp add: np_cast_def band_dtype_def sample_dataset_def py_int_def)
  from fvs f have "result_fill_value (projr (fst ?r)) = Some 255" by auto
  with c n o v g ok show ?thesis by simp
qed


subsection \<open>Boundless reads outside the dataset\<close>

text \<open>
  The boundless branch tests the clamped window against \<open>((0, 0), (0, 0))\<close>. Every
  successful boundless read whose clamped window is anything else makes a transfer,
  whatever \<open>windows.evaluate\<close> does.
\<close>

lemma read_overlap_calls:
  "read_overlap e ds idx out w ov ws dt masked ndvs = (Inr res, calls) \<Longrightarrow> calls \<noteq> []"
  by (auto simp: read_overlap_def read_overlap_data_def Let_def
           split: sum.splits prod.splits if_splits dest!: u_read_Inr)

lemma boundless_read_transfers:
  assumes "read e ds indexes' out (Some w) masked out_shape True = (Inr res, calls)"
    and "overlap_window ds w \<noteq> ((0, 0), (0, 0))"
  shows "calls \<noteq> []"
proof -
  from read_Inr_plan [OF assms(1)] obtain p where
    p: "read_prepare e ds indexes' out (Some w) masked out_shape True = Inr p" by blast
  from read_prepare_window [OF p] have win: "rp_window p = Some w"
    by (auto simp: read_win_shape_def split: prod.splits)
  from read_body [OF assms(1) p] win obtain res' where
    "read_boundless e ds (rp_indexes p) (rp_out p) w (rp_win_shape p) (rp_dtype p) masked
       (rp_nodatavals p) = (Inr res', calls)"
    by auto
  with assms(2) show ?thesis
    by (auto simp: read_boundless_def dest: read_overlap_calls)
qed

text \<open>
  Claim C2. A boundless read whose window does not meet the dataset should return the
  filled buffer without any native transfer. The code skips the transfer only when all
  four clamped bounds are 0, that is for a window that ends at or before row 0 and at
  or before column 0. The window rows -10 to -5, columns 0 to 50 lies above a dataset
  of 100 by 100 pixels and does not meet it; its clamped form is rows 0 to 0, columns 0
  to 50, and the read calls the native transfer once, into a buffer of no rows. The
  rectangle of the call is what \<open>windows.evaluate\<close> makes of the clamped window in
  \<open>_read\<close>: with the instance that hands the window back as it is, height 0 and
  width 50.
\<close>

theorem boundless_read_above_dataset_transfers:
  "map (\<lambda>c. (nc_target c, nc_mode c, call_rect c, nc_buf_ysize c, nc_buf_xsize c, nc_bandmap c))
     (snd (read env_keep (sample_dataset 1 UInt8 [None] (\<lambda>j. 8) (\<lambda>j. 255)) None None
             (Some ((-10, -5), (0, 50))) False None True))
   = [(DatasetIO, 0, (0, 0, 50, 0), 0, 50, [1])]"
  by code_simp

subsection \<open>Empty index lists\<close>

text \<open>\<open>read\<close> rejects an empty index list first of all.\<close>

lemma read_empty_indexes_rejected:
  "read e ds (Some (IndexList [])) out window masked out_shape boundless
     = (Inl (ValueError ''No indexes to read''), [])"
  by (simp add: read_def read_prepare_def resolve_indexes_def)

text \<open>\<open>write\<close> rejects an empty index list when the source has a plane.\<close>

lemma write_empty_indexes_with_planes_rejected:
  "shape0 (shape src) \<noteq> 0 \<Longrightarrow>
     \<exists>err. fst (writer_write e ds src (Some (IndexList [])) window) = (Inl err, [])"
  by (auto simp: writer_write_def write_prepare_def write_source_def Let_def)

text \<open>
  Claim C4. A read or a write with an empty index list should raise before any native
  transfer. \<open>read\<close> does (the lemma above). \<open>write\<close> has no test of the index
  list; it compares the number of planes of the source with the number of indexes. A
  source of no planes (shape \<open>(0, 2, 2)\<close>) with the empty index list passes, the
  encoding is taken from band 1, and the native transfer is called in write mode with
  an empty band map; no error is raised.
\<close>

theorem write_empty_indexes_reaches_transfer:
  "fst (fst (writer_write env_keep (sample_dataset 1 UInt8 [None] (\<lambda>j. 8) (\<lambda>j. 255))
               (const_array (Shape3 0 2 2) UInt8 (PReal 1)) (Some (IndexList [])) None)) = Inr ()
   \<and> map (\<lambda>c. (nc_target c, nc_mode c, call_rect c, nc_bandmap c))
        (snd (fst (writer_write env_keep (sample_dataset 1 UInt8 [None] (\<lambda>j. 8) (\<lambda>j. 255))
               (const_array (Shape3 0 2 2) UInt8 (PReal 1)) (Some (IndexList [])) None)))
      = [(DatasetIO, 1, (0, 0, 100, 100), [])]"
  by code_simp

subsection \<open>What \<open>write\<close> hands to the library\<close>

lemma io_multi_real_write:
  "io_multi_real gdt hds (Suc 0) xoff yoff w h buf idx n = (Inr (retval, buf'), calls) \<Longrightarrow>
     buf' = buf \<and> (\<exists>c. calls = [c] \<and> nc_mode c = 1 \<and> nc_bandmap c = take n idx
                       \<and> nc_mem c = Some (flatten buf) \<and> call_rect c = (xoff, yoff, w, h))"
  by (auto simp: io_multi_real_def call_rect_def Let_def split: shape.splits prod.splits)

lemma io_dispatch_real_write:
  assumes "io_dispatch e gdt hds (Suc 0) xoff yoff w h buf idx n = (Inr (retval, buf'), calls)"
    and "1 \<le> gdt" and "gdt \<le> 7"
  shows "buf' = buf \<and> (\<exists>c. calls = [c] \<and> nc_mode c = 1 \<and> nc_bandmap c = take n idx
                        \<and> nc_mem c = Some (flatten buf) \<and> call_rect c = (xoff, yoff, w, h))"
proof -
  from assms(2,3) have "gdt = 1 \<or> gdt = 2 \<or> gdt = 3 \<or> gdt = 4 \<or> gdt = 5 \<or> gdt = 6 \<or> gdt = 7"
    by arith
  then show ?thesis
    using assms(1)
    by (auto simp: io_dispatch_def io_multi_defs dest!: io_multi_real_write)
qed

lemma io_dispatch_3d:
  "shape buf = Shape3 n r c \<Longrightarrow>
     \<not> isl (fst (io_dispatch e gdt hds mode xoff yoff w h buf idx k))"
  by (simp add: io_dispatch_def io_multi_defs io_multi_real_def io_multi_complex_def Let_def
        case_prod_beta)

lemma kind_real_gdt: "dtype_kind dt \<noteq> KindC \<Longrightarrow> 1 \<le> dtype_rev dt \<and> dtype_rev dt \<le> 7"
  by (cases dt) simp_all

lemma write_prepare_alias:
  "write_prepare e ds src indexes' window = Inr (idx, dt, src2, True, rect) \<Longrightarrow> src2 = src"
  by (auto simp: write_prepare_def write_source_def np_require_C_def Let_def
           split: if_splits sum.splits prod.splits option.splits index_arg.splits shape.splits)

lemma ndim_3: "ndim s = 3 \<Longrightarrow> \<exists>n r c. s = Shape3 n r c"
  by (cases s) auto

lemma write_prepare_3d:
  assumes "write_prepare e ds src indexes' window = Inr (idx, dt, src2, aliased, rect)"
  shows "\<exists>n r c. shape src2 = Shape3 n r c"
proof -
  from assms have "ndim (shape src2) = 3"
    by (auto simp: write_prepare_def write_source_def np_require_C_def Let_def
             split: if_splits sum.splits prod.splits option.splits index_arg.splits shape.splits)
  then show ?thesis by (rule ndim_3)
qed

lemma write_real:
  assumes "write_prepare e ds src indexes' window = Inr (idx, dt, src2, aliased, rect)"
    and "dtype_kind dt \<noteq> KindC"
  shows "snd (writer_write e ds src indexes' window) = src
       \<and> (\<exists>c. snd (fst (writer_write e ds src indexes' window)) = [c] \<and> nc_mode c = 1
             \<and> nc_bandmap c = idx \<and> nc_mem c = Some (flatten src2) \<and> call_rect c = rect)"
proof -
  obtain xoff yoff w h where rect: "rect = (xoff, yoff, w, h)" by (cases rect) auto
  let ?d = "io_dispatch e (dtype_rev dt) ds (Suc 0) xoff yoff w h src2 idx (length idx)"
  from write_prepare_3d [OF assms(1)] io_dispatch_3d have "\<not> isl (fst ?d)" by blast
  then obtain retval buf' calls where d: "?d = (Inr (retval, buf'), calls)"
    by (cases ?d; cases "fst ?d") auto
  from io_dispatch_real_write [OF d] kind_real_gdt [OF assms(2)] obtain c where
    b: "buf' = src2" and c: "calls = [c]" "nc_mode c = 1" "nc_bandmap c = idx"
      "nc_mem c = Some (flatten src2)" "call_rect c = (xoff, yoff, w, h)"
    by auto
  have "aliased \<longrightarrow> src2 = src"
    using assms(1) by (auto dest: write_prepare_alias)
  with assms(1) d b c rect show ?thesis
    by (auto simp: writer_write_def)
qed


text \<open>
  Claim C7. \<open>write\<close> with the index list \<open>[3, 1]\<close> should store plane 0 of the
  source into band 3 and plane 1 into band 1. For the seven real encodings the one
  native call gets the band map in the caller's order together with the memory of the
  source (lemma \<open>write_real\<close>). The four complex transfer functions also pass the
  band map in the caller's order, but the memory they hand to the library is their own
  temporary buffer, which was never filled from the source: on a complex dataset the
  call with band map \<open>[3, 1]\<close> hands over zeros (what fresh memory holds here) where
  plane 0 of the source holds \<open>5 + 6i\<close>.
\<close>

theorem write_complex_hands_temporary:
  "fst (fst (writer_write env_keep (sample_dataset 3 CFloat32 [None, None, None] (\<lambda>j. 8) (\<lambda>j. 255))
               (two_planes CFloat32 (PComplex 5 6) (PComplex 7 8)) (Some (IndexList [3, 1]))
               (Some ((0, 1), (0, 1))))) = Inr ()
   \<and> map (\<lambda>c. (nc_mode c, nc_bandmap c, map_option (\<lambda>m. (m 0 0, m 0 1, m 1 0, m 1 1)) (nc_mem c)))
        (snd (fst (writer_write env_keep (sample_dataset 3 CFloat32 [None, None, None] (\<lambda>j. 8) (\<lambda>j. 255))
               (two_planes CFloat32 (PComplex 5 6) (PComplex 7 8)) (Some (IndexList [3, 1]))
               (Some ((0, 1), (0, 1))))))
      = [(1, [3, 1], Some (0, 0, 0, 0))]
   \<and> cells (two_planes CFloat32 (PComplex 5 6) (PComplex 7 8)) 0 0 0 = PComplex 5 6"
  by code_simp

text \<open>
  Claim C10. \<open>write\<close> should leave the caller's array as it was. It does for the real
  encodings (lemma \<open>write_real\<close>). A complex transfer function, called in write mode
  on the caller's own array (a C-contiguous array of the dataset's encoding given with
  an index list), copies its temporary buffer into that array after a transfer that
  did not fail: the write succeeds and the caller's array, which held \<open>1 + 2i\<close>
  everywhere, holds zeros.
\<close>

theorem write_complex_overwrites_source:
  "fst (fst (writer_write env_keep (sample_dataset 1 CFloat32 [None] (\<lambda>j. 8) (\<lambda>j. 255))
               (const_array (Shape3 1 2 2) CFloat32 (PComplex 1 2)) (Some (IndexList [1]))
               (Some ((0, 2), (0, 2))))) = Inr ()
   \<and> cells (const_array (Shape3 1 2 2) CFloat32 (PComplex 1 2)) 0 0 0 = PComplex 1 2
   \<and> cells (snd (writer_write env_keep (sample_dataset 1 CFloat32 [None] (\<lambda>j. 8) (\<lambda>j. 255))
               (const_array (Shape3 1 2 2) CFloat32 (PComplex 1 2)) (Some (IndexList [1]))
               (Some ((0, 2), (0, 2))))) 0 0 0 = PComplex 0 0"
  by code_simp


end
